theory Spec2Isabelle
  imports Complex_Main
begin

section \<open>Values of the host language\<close>

text \<open>
  The exceptions that can leave the functions of \<^verbatim>\<open>main.py\<close>.
  \<open>FileNotFoundError\<close> is raised by \<^verbatim>\<open>connect\<close> itself; \<open>OperationalError\<close> is
  what the database layer raises for a statement that names a missing table or column
  (a structural failure); \<open>DatabaseError\<close> is what it raises when the file is not a
  database at all; \<open>AttributeError\<close> is calling \<^verbatim>\<open>execute\<close> on a connection that is
  still \<^verbatim>\<open>None\<close>; \<open>OutOfRange\<close> stands for the \<^verbatim>\<open>ValueError\<close> or \<^verbatim>\<open>OverflowError\<close> of
  \<^verbatim>\<open>datetime.fromtimestamp\<close> on an instant outside the years 1 to 9999.
\<close>

datatype py_error =
    FileNotFoundError
  | OperationalError
  | DatabaseError
  | AttributeError
  | OutOfRange

text \<open>
  A \<^verbatim>\<open>datetime\<close> is identified with the instant it denotes, in seconds since the 1970
  epoch. Floats are modelled by reals, the local zone is UTC, and the rounding of
  \<^verbatim>\<open>fromtimestamp\<close> to microseconds is left out.
\<close>

datatype datetime = Datetime real

fun seconds :: "datetime \<Rightarrow> real" where
  "seconds (Datetime t) = t"

definition fromtimestamp :: "real \<Rightarrow> py_error + datetime" where
  "fromtimestamp t =
     (if - 62135596800 \<le> t \<and> t < 253402300800 then Inr (Datetime t) else Inl OutOfRange)"

text \<open>Truth value of a column read from a row: \<^verbatim>\<open>None\<close>, \<^verbatim>\<open>""\<close> and \<^verbatim>\<open>0\<close> are false.\<close>

fun truthy_str :: "string option \<Rightarrow> bool" where
  "truthy_str None = False"
| "truthy_str (Some s) = (s \<noteq> [])"

fun truthy_num :: "real option \<Rightarrow> bool" where
  "truthy_num None = False"
| "truthy_num (Some x) = (x \<noteq> 0)"

fun truthy_int :: "int option \<Rightarrow> bool" where
  "truthy_int None = False"
| "truthy_int (Some n) = (n \<noteq> 0)"

text \<open>What an f-string prints for a text column: \<^verbatim>\<open>None\<close> prints as the word None.\<close>

fun py_str :: "string option \<Rightarrow> string" where
  "py_str None = ''None''"
| "py_str (Some s) = s"

text \<open>The line feed.\<close>

definition newline :: string where
  "newline = [CHR 0x0A]"

text \<open>\<^verbatim>\<open>str.lower\<close>, on ASCII: the strings of the model are byte strings.\<close>

definition lower_char :: "char \<Rightarrow> char" where
  "lower_char c =
     (case map_of (zip ''ABCDEFGHIJKLMNOPQRSTUVWXYZ'' ''abcdefghijklmnopqrstuvwxyz'') c of
        None \<Rightarrow> c
      | Some l \<Rightarrow> l)"

definition lower :: "string \<Rightarrow> string" where
  "lower s = map lower_char s"

text \<open>\<^verbatim>\<open>sub in s\<close> on strings.\<close>

fun starts_with :: "string \<Rightarrow> string \<Rightarrow> bool" where
  "starts_with s [] = True"
| "starts_with [] (c # sub) = False"
| "starts_with (d # s) (c # sub) = (d = c \<and> starts_with s sub)"

fun contains :: "string \<Rightarrow> string \<Rightarrow> bool" where
  "contains [] sub = (sub = [])"
| "contains (d # s) sub = (starts_with (d # s) sub \<or> contains s sub)"

text \<open>Decimal digits, for \<^verbatim>\<open>strftime\<close> and for the format \<^verbatim>\<open>.1f\<close>.\<close>

definition digit :: "nat \<Rightarrow> char" where
  "digit d = ''0123456789'' ! (d mod 10)"

fun digits :: "nat \<Rightarrow> string" where
  "digits n = (if n < 10 then [digit n] else digits (n div 10) @ [digit (n mod 10)])"

definition pad2 :: "nat \<Rightarrow> string" where
  "pad2 n = [digit (n div 10), digit n]"

definition pad4 :: "nat \<Rightarrow> string" where
  "pad4 n = [digit (n div 1000), digit (n div 100), digit (n div 10), digit n]"

definition round_half_even :: "real \<Rightarrow> int" where
  "round_half_even x =
     (let f = \<lfloor>x\<rfloor>; d = x - of_int f
      in if d < 1 / 2 then f else if 1 / 2 < d then f + 1 else if even f then f else f + 1)"

text \<open>\<^verbatim>\<open>f"{x:.1f}"\<close>: one decimal place, the sign kept on a negative value.\<close>

definition format_1f :: "real \<Rightarrow> string" where
  "format_1f x =
     (let n = nat (round_half_even (\<bar>x\<bar> * 10))
      in (if x < 0 then ''-'' else '''') @ digits (n div 10) @ ''.'' @ [digit n])"

text \<open>
  \<^verbatim>\<open>strftime('%Y-%m-%d %H:%M:%S')\<close>: the civil date of the day number in the proleptic
  Gregorian calendar (by the day of the 400-year era, the year of the era, the day of the
  year counted from March, and the month counted from March), then the time of day.
\<close>

definition year_month_day :: "int \<Rightarrow> int \<Rightarrow> int \<Rightarrow> int \<times> int \<times> int" where
  "year_month_day y doy mp =
     (if mp < 10 then (y, mp + 3, doy - (153 * mp + 2) div 5 + 1)
      else (y + 1, mp - 9, doy - (153 * mp + 2) div 5 + 1))"

definition from_day_of_year :: "int \<Rightarrow> int \<Rightarrow> int \<times> int \<times> int" where
  "from_day_of_year y doy = year_month_day y doy ((5 * doy + 2) div 153)"

definition from_year_of_era :: "int \<Rightarrow> int \<Rightarrow> int \<Rightarrow> int \<times> int \<times> int" where
  "from_year_of_era era doe yoe =
     from_day_of_year (yoe + era * 400) (doe - (365 * yoe + yoe div 4 - yoe div 100))"

definition from_day_of_era :: "int \<Rightarrow> int \<Rightarrow> int \<times> int \<times> int" where
  "from_day_of_era era doe =
     from_year_of_era era doe ((doe - doe div 1460 + doe div 36524 - doe div 146096) div 365)"

definition civil_from_days :: "int \<Rightarrow> int \<times> int \<times> int" where
  "civil_from_days days =
     from_day_of_era ((days + 719468) div 146097) ((days + 719468) mod 146097)"

fun format_date :: "int \<times> int \<times> int \<Rightarrow> string" where
  "format_date (y, m, d) = pad4 (nat y) @ ''-'' @ pad2 (nat m) @ ''-'' @ pad2 (nat d)"

definition format_time :: "int \<Rightarrow> string" where
  "format_time sod =
     pad2 (nat (sod div 3600)) @ '':'' @ pad2 (nat (sod mod 3600 div 60)) @ '':'' @
     pad2 (nat (sod mod 60))"

definition format_seconds :: "int \<Rightarrow> string" where
  "format_seconds s =
     format_date (civil_from_days (s div 86400)) @ '' '' @ format_time (s mod 86400)"

definition strftime :: "datetime \<Rightarrow> string" where
  "strftime dt = format_seconds \<lfloor>seconds dt\<rfloor>"

section \<open>The two stores\<close>

text \<open>
  A row of the annotation table and a row of a library table, each column with the type
  its declaration in the store gives it (\<open>None\<close> is SQL NULL). A table knows which
  columns this version of the schema has: a statement that names a column outside
  \<open>columns\<close>, or a table that is not there, fails with \<open>OperationalError\<close>.
\<close>

record ann_row =
  ZANNOTATIONSELECTEDTEXT :: "string option"
  ZANNOTATIONCREATIONDATE :: "real option"
  ZANNOTATIONNOTE :: "string option"
  ZANNOTATIONASSETID :: "string option"
  ZANNOTATIONREPRESENTATIVETEXT :: "string option"
  ZANNOTATIONTYPE :: "int option"
  ZANNOTATIONISUNDERLINE :: "int option"
  ZANNOTATIONDELETED :: "int option"

record book_row =
  ZTITLE :: "string option"
  ZASSETID :: "string option"
  ZBKASSETID :: "string option"
  ZAUTHOR :: "string option"
  ZREADINGPROGRESS :: "real option"
  ZLASTOPENDATE :: "real option"
  ZBOOKDESCRIPTION :: "string option"
  ZGENRE :: "string option"

record 'r table =
  columns :: "string list"
  rows :: "'r list"

record database =
  ZAEANNOTATION :: "ann_row table option"
  ZBKLIBRARYASSET :: "book_row table option"
  ZBKLIBRARY :: "book_row table option"

text \<open>
  A file on disk is an SQLite database or anything else (\<open>Document\<close>, with its bytes);
  the exporter writes a \<open>Document\<close>. A connection holds the file it was opened on: the
  program never writes to a database.
\<close>

datatype store_file = Sqlite database | Document string

type_synonym disk = "string \<Rightarrow> store_file option"

definition has_columns :: "string list \<Rightarrow> 'r table \<Rightarrow> bool" where
  "has_columns cs t = list_all (\<lambda>c. c \<in> set (columns t)) cs"

section \<open>The extractor\<close>

text \<open>
  The dataclass \<^verbatim>\<open>Highlight\<close>; its fields carry a prefix here, since several of their
  names are keywords of the theory language. Then the extractor with its four fields: the
  two paths are given, the search that finds them is not part of the model.
\<close>

record Highlight =
  hl_text :: string
  hl_created_at :: datetime
  hl_book_title :: string
  hl_chapter :: "string option"
  hl_note :: "string option"

record extractor =
  annotation_db_path :: string
  library_db_path :: "string option"
  annotation_conn :: "store_file option"
  library_conn :: "store_file option"

text \<open>
  The readings of \<^verbatim>\<open>datetime.now()\<close>: the \<open>k\<close>-th call of a run returns \<open>clock k\<close>.
  The functions below thread the number of calls made so far.
\<close>

type_synonym clock = "nat \<Rightarrow> real"

subsection \<open>connect\<close>

definition connect :: "disk \<Rightarrow> extractor \<Rightarrow> py_error + extractor" where
  "connect d ext =
     (case d (annotation_db_path ext) of
        None \<Rightarrow> Inl FileNotFoundError
      | Some f \<Rightarrow>
          Inr (ext\<lparr>annotation_conn := Some f,
                   library_conn :=
                     (case library_db_path ext of
                        None \<Rightarrow> library_conn ext
                      | Some p \<Rightarrow> (case d p of None \<Rightarrow> library_conn ext | Some lf \<Rightarrow> Some lf))\<rparr>))"

subsection \<open>get_book_title\<close>

text \<open>
  A candidate statement \<^verbatim>\<open>SELECT ZTITLE FROM tbl WHERE col = ?\<close> is the pair of its
  table and its key column. \<open>fetchone\<close> gives the first matching row, if any; its
  only column is the title, which may be NULL.
\<close>

definition queries :: "(string \<times> string) list" where
  "queries =
     [(''ZBKLIBRARYASSET'', ''ZASSETID''),
      (''ZBKLIBRARYASSET'', ''ZBKASSETID''),
      (''ZBKLIBRARY'', ''ZASSETID'')]"

definition library_table :: "database \<Rightarrow> string \<Rightarrow> book_row table option" where
  "library_table db name =
     (if name = ''ZBKLIBRARYASSET'' then ZBKLIBRARYASSET db
      else if name = ''ZBKLIBRARY'' then ZBKLIBRARY db
      else None)"

definition key_column :: "string \<Rightarrow> book_row \<Rightarrow> string option" where
  "key_column col r =
     (if col = ''ZASSETID'' then ZASSETID r
      else if col = ''ZBKASSETID'' then ZBKASSETID r
      else None)"

definition fetch_title ::
  "store_file \<Rightarrow> string \<times> string \<Rightarrow> string \<Rightarrow> py_error + string option option" where
  "fetch_title conn q asset_id =
     (case conn of
        Document _ \<Rightarrow> Inl DatabaseError
      | Sqlite db \<Rightarrow>
          (case library_table db (fst q) of
             None \<Rightarrow> Inl OperationalError
           | Some t \<Rightarrow>
               if has_columns [''ZTITLE'', snd q] t
               then Inr (case filter (\<lambda>r. key_column (snd q) r = Some asset_id) (rows t) of
                           [] \<Rightarrow> None
                         | r # _ \<Rightarrow> Some (ZTITLE r))
               else Inl OperationalError))"

text \<open>
  The loop over the candidates: a row ends it, \<open>OperationalError\<close> and an empty answer
  go on to the next candidate, and any other exception leaves the loop for the outer
  handler.
\<close>

fun try_queries ::
  "store_file \<Rightarrow> string \<Rightarrow> (string \<times> string) list \<Rightarrow> py_error + string option" where
  "try_queries conn asset_id [] = Inr None"
| "try_queries conn asset_id (q # qs) =
     (case fetch_title conn q asset_id of
        Inl e \<Rightarrow> if e = OperationalError then try_queries conn asset_id qs else Inl e
      | Inr None \<Rightarrow> try_queries conn asset_id qs
      | Inr (Some title) \<Rightarrow> Inr title)"

definition get_book_title :: "extractor \<Rightarrow> string \<Rightarrow> string option" where
  "get_book_title ext asset_id =
     (case library_conn ext of
        None \<Rightarrow> None
      | Some conn \<Rightarrow>
          (case try_queries conn asset_id queries of
             Inl e \<Rightarrow> None
           | Inr title \<Rightarrow> title))"

subsection \<open>The primary query\<close>

text \<open>The rows the primary statement returns, with the names it gives the columns.\<close>

record primary_row =
  row_text :: string
  row_created_at :: "real option"
  row_note :: "string option"
  row_book_id :: "string option"
  row_representative_text :: "string option"
  row_annotation_type :: "int option"
  row_is_underline :: "int option"

definition primary_columns :: "string list" where
  "primary_columns =
     [''ZANNOTATIONSELECTEDTEXT'', ''ZANNOTATIONCREATIONDATE'', ''ZANNOTATIONNOTE'',
      ''ZANNOTATIONASSETID'', ''ZANNOTATIONREPRESENTATIVETEXT'', ''ZANNOTATIONTYPE'',
      ''ZANNOTATIONISUNDERLINE'', ''ZANNOTATIONDELETED'']"

text \<open>
  \<^verbatim>\<open>WHERE ZANNOTATIONSELECTEDTEXT IS NOT NULL AND ZANNOTATIONDELETED = 0\<close>, and the
  projection.
\<close>

definition select_primary :: "ann_row \<Rightarrow> primary_row option" where
  "select_primary r =
     (case ZANNOTATIONSELECTEDTEXT r of
        None \<Rightarrow> None
      | Some t \<Rightarrow>
          if ZANNOTATIONDELETED r = Some 0
          then Some \<lparr>row_text = t,
                     row_created_at = ZANNOTATIONCREATIONDATE r,
                     row_note = ZANNOTATIONNOTE r,
                     row_book_id = ZANNOTATIONASSETID r,
                     row_representative_text = ZANNOTATIONREPRESENTATIVETEXT r,
                     row_annotation_type = ZANNOTATIONTYPE r,
                     row_is_underline = ZANNOTATIONISUNDERLINE r\<rparr>
          else None)"

text \<open>
  \<^verbatim>\<open>ORDER BY ... DESC\<close> on a timestamp column: NULL is below every number, so the
  NULLs come last. Rows with equal keys keep the order of the table.
\<close>

fun sql_less :: "real option \<Rightarrow> real option \<Rightarrow> bool" where
  "sql_less None None = False"
| "sql_less None (Some y) = True"
| "sql_less (Some x) None = False"
| "sql_less (Some x) (Some y) = (x < y)"

fun insert_desc :: "('r \<Rightarrow> real option) \<Rightarrow> 'r \<Rightarrow> 'r list \<Rightarrow> 'r list" where
  "insert_desc key r [] = [r]"
| "insert_desc key r (x # xs) =
     (if sql_less (key r) (key x) then x # insert_desc key r xs else r # x # xs)"

definition order_by_desc :: "('r \<Rightarrow> real option) \<Rightarrow> 'r list \<Rightarrow> 'r list" where
  "order_by_desc key xs = foldr (insert_desc key) xs []"

definition primary_query :: "store_file \<Rightarrow> py_error + primary_row list" where
  "primary_query conn =
     (case conn of
        Document _ \<Rightarrow> Inl DatabaseError
      | Sqlite db \<Rightarrow>
          (case ZAEANNOTATION db of
             None \<Rightarrow> Inl OperationalError
           | Some t \<Rightarrow>
               if has_columns primary_columns t
               then Inr (order_by_desc row_created_at (List.map_filter select_primary (rows t)))
               else Inl OperationalError))"

text \<open>The statement on \<^verbatim>\<open>sqlite_master\<close>: the names of the tables, which are only printed.\<close>

definition table_names :: "store_file \<Rightarrow> py_error + string list" where
  "table_names conn =
     (case conn of
        Document _ \<Rightarrow> Inl DatabaseError
      | Sqlite db \<Rightarrow>
          Inr ((case ZAEANNOTATION db of None \<Rightarrow> [] | Some _ \<Rightarrow> [''ZAEANNOTATION'']) @
               (case ZBKLIBRARY db of None \<Rightarrow> [] | Some _ \<Rightarrow> [''ZBKLIBRARY'']) @
               (case ZBKLIBRARYASSET db of None \<Rightarrow> [] | Some _ \<Rightarrow> [''ZBKLIBRARYASSET''])))"

subsection \<open>The fallback: _get_book_info\<close>

record info_row =
  info_book_title :: string
  info_author :: "string option"
  info_progress :: "real option"
  info_last_opened :: "real option"
  info_description :: "string option"
  info_genre :: "string option"

definition info_columns :: "string list" where
  "info_columns =
     [''ZTITLE'', ''ZAUTHOR'', ''ZREADINGPROGRESS'', ''ZLASTOPENDATE'', ''ZBOOKDESCRIPTION'',
      ''ZGENRE'']"

definition select_info :: "book_row \<Rightarrow> info_row option" where
  "select_info r =
     (case ZTITLE r of
        None \<Rightarrow> None
      | Some t \<Rightarrow>
          Some \<lparr>info_book_title = t,
                info_author = ZAUTHOR r,
                info_progress = ZREADINGPROGRESS r,
                info_last_opened = ZLASTOPENDATE r,
                info_description = ZBOOKDESCRIPTION r,
                info_genre = ZGENRE r\<rparr>)"

text \<open>
  The operator \<^verbatim>\<open>LIKE\<close>: \<^verbatim>\<open>%\<close> in the pattern stands for any run of characters and
  \<^verbatim>\<open>_\<close> for any one character. Both sides are lowered by the statement itself.
\<close>

fun like :: "string \<Rightarrow> string \<Rightarrow> bool" where
  "like [] [] = True"
| "like [] (c # s) = False"
| "like (p # ps) [] = (p = CHR ''%'' \<and> like ps [])"
| "like (p # ps) (c # s) =
     (if p = CHR ''%'' then like ps (c # s) \<or> like (p # ps) s
      else (p = CHR ''_'' \<or> p = c) \<and> like ps s)"

definition book_info_query :: "store_file \<Rightarrow> string option \<Rightarrow> py_error + info_row list" where
  "book_info_query conn book_title =
     (case conn of
        Document _ \<Rightarrow> Inl DatabaseError
      | Sqlite db \<Rightarrow>
          (case ZBKLIBRARYASSET db of
             None \<Rightarrow> Inl OperationalError
           | Some t \<Rightarrow>
               if has_columns info_columns t
               then (let found = List.map_filter select_info (rows t)
                     in if truthy_str book_title
                        then Inr (filter (\<lambda>r. like (lower (''%'' @ py_str book_title @ ''%''))
                                                    (lower (info_book_title r))) found)
                        else Inr (order_by_desc info_last_opened found))
               else Inl OperationalError))"

definition info_highlight :: "info_row \<Rightarrow> datetime \<Rightarrow> Highlight" where
  "info_highlight r created =
     \<lparr>hl_text = (case info_progress r of
                   None \<Rightarrow> ''No progress data''
                 | Some p \<Rightarrow> ''Progress: '' @ format_1f (p * 100) @ ''%''),
      hl_created_at = created,
      hl_book_title = info_book_title r,
      hl_chapter = (if truthy_str (info_genre r) then info_genre r else None),
      hl_note = (if truthy_str (info_author r) \<or> truthy_str (info_description r)
                 then Some (''Author: '' @ py_str (info_author r) @ newline @
                            ''Description: '' @ py_str (info_description r))
                 else None)\<rparr>"

text \<open>
  The conversion of a stored timestamp, shared by both loops: a true value is shifted by
  the offset of the store's epoch, anything else takes a reading of the clock.
\<close>

definition convert_timestamp :: "clock \<Rightarrow> nat \<Rightarrow> real option \<Rightarrow> py_error + datetime \<times> nat" where
  "convert_timestamp clk k ts =
     (case ts of
        None \<Rightarrow> Inr (Datetime (clk k), Suc k)
      | Some t \<Rightarrow>
          if t \<noteq> 0
          then (case fromtimestamp (t + 978307200) of
                  Inl e \<Rightarrow> Inl e
                | Inr dt \<Rightarrow> Inr (dt, k))
          else Inr (Datetime (clk k), Suc k))"

fun info_loop ::
  "clock \<Rightarrow> info_row list \<Rightarrow> nat \<Rightarrow> Highlight list \<Rightarrow> py_error + Highlight list" where
  "info_loop clk [] k highlights = Inr highlights"
| "info_loop clk (r # rs) k highlights =
     (case convert_timestamp clk k (info_last_opened r) of
        Inl e \<Rightarrow> Inl e
      | Inr (created, k') \<Rightarrow> info_loop clk rs k' (highlights @ [info_highlight r created]))"

definition get_book_info ::
  "extractor \<Rightarrow> clock \<Rightarrow> nat \<Rightarrow> string option \<Rightarrow> py_error + Highlight list" where
  "get_book_info ext clk k book_title =
     (case library_conn ext of
        None \<Rightarrow> Inl AttributeError
      | Some conn \<Rightarrow>
          (case book_info_query conn book_title of
             Inl e \<Rightarrow> Inl e
           | Inr found \<Rightarrow> info_loop clk found k []))"

subsection \<open>get_highlights\<close>

definition row_highlight_text :: "primary_row \<Rightarrow> string" where
  "row_highlight_text r =
     (if truthy_str (row_representative_text r)
      then row_text r @ newline @ newline @ ''Context: '' @ py_str (row_representative_text r)
      else row_text r)"

definition row_note_text :: "primary_row \<Rightarrow> string" where
  "row_note_text r =
     (let note = (case row_note r of None \<Rightarrow> '''' | Some n \<Rightarrow> n)
      in case row_annotation_type r of
           None \<Rightarrow> note
         | Some _ \<Rightarrow>
             (let note_prefix = (if truthy_int (row_is_underline r) then ''Underline''
                                 else ''Highlight'')
              in if note \<noteq> [] then note_prefix @ newline @ note else note_prefix))"

definition current_book_title :: "extractor \<Rightarrow> primary_row \<Rightarrow> string option" where
  "current_book_title ext r =
     (if truthy_str (row_book_id r) then get_book_title ext (py_str (row_book_id r)) else None)"

definition skip_row :: "string option \<Rightarrow> string option \<Rightarrow> bool" where
  "skip_row book_title current =
     (truthy_str book_title \<and> truthy_str current \<and>
      \<not> contains (lower (py_str current)) (lower (py_str book_title)))"

definition shown_book_title :: "primary_row \<Rightarrow> string option \<Rightarrow> string" where
  "shown_book_title r current =
     (if truthy_str (row_book_id r)
      then (if truthy_str current then py_str current
            else ''Book ID: '' @ py_str (row_book_id r))
      else ''Unknown Book'')"

definition row_highlight :: "primary_row \<Rightarrow> string option \<Rightarrow> datetime \<Rightarrow> Highlight" where
  "row_highlight r current created =
     \<lparr>hl_text = row_highlight_text r,
      hl_created_at = created,
      hl_book_title = shown_book_title r current,
      hl_chapter = None,
      hl_note = Some (row_note_text r)\<rparr>"

text \<open>
  The body of the loop over the rows of the primary query, for one row: the error of the
  conversion, or the record to append (\<open>None\<close> for \<^verbatim>\<open>continue\<close>) and the number of
  clock readings taken so far.
\<close>

definition process_row ::
  "extractor \<Rightarrow> clock \<Rightarrow> string option \<Rightarrow> nat \<Rightarrow> primary_row \<Rightarrow>
     py_error + Highlight option \<times> nat" where
  "process_row ext clk book_title k r =
     (case convert_timestamp clk k (row_created_at r) of
        Inl e \<Rightarrow> Inl e
      | Inr (created, k') \<Rightarrow>
          (let current = current_book_title ext r
           in if skip_row book_title current then Inr (None, k')
              else Inr (Some (row_highlight r current created), k')))"

fun collect ::
  "extractor \<Rightarrow> clock \<Rightarrow> string option \<Rightarrow> primary_row list \<Rightarrow> nat \<Rightarrow> Highlight list \<Rightarrow>
     py_error + Highlight list \<times> nat" where
  "collect ext clk book_title [] k highlights = Inr (highlights, k)"
| "collect ext clk book_title (r # rs) k highlights =
     (case process_row ext clk book_title k r of
        Inl e \<Rightarrow> Inl e
      | Inr (None, k') \<Rightarrow> collect ext clk book_title rs k' highlights
      | Inr (Some h, k') \<Rightarrow> collect ext clk book_title rs k' (highlights @ [h]))"

definition ensure_connected :: "disk \<Rightarrow> extractor \<Rightarrow> py_error + extractor" where
  "ensure_connected d ext =
     (case annotation_conn ext of None \<Rightarrow> connect d ext | Some _ \<Rightarrow> Inr ext)"

text \<open>
  The part of \<^verbatim>\<open>get_highlights\<close> after the connection is there: the statement on
  \<^verbatim>\<open>sqlite_master\<close>, the \<^verbatim>\<open>try\<close> block with its handler for \<open>OperationalError\<close>, and
  the two lines after it.
\<close>

definition fetch_highlights ::
  "extractor \<Rightarrow> clock \<Rightarrow> string option \<Rightarrow> py_error + Highlight list" where
  "fetch_highlights ext clk book_title =
     (case annotation_conn ext of
        None \<Rightarrow> Inl AttributeError
      | Some conn \<Rightarrow>
          (case table_names conn of
             Inl e \<Rightarrow> Inl e
           | Inr tables \<Rightarrow>
               (case primary_query conn of
                  Inl e \<Rightarrow>
                    if e = OperationalError then get_book_info ext clk 0 book_title else Inl e
                | Inr found \<Rightarrow>
                    (case collect ext clk book_title found 0 [] of
                       Inl e \<Rightarrow>
                         if e = OperationalError then get_book_info ext clk 0 book_title
                         else Inl e
                     | Inr (highlights, k) \<Rightarrow>
                         if highlights \<noteq> [] then Inr highlights
                         else get_book_info ext clk k book_title))))"

definition get_highlights ::
  "disk \<Rightarrow> clock \<Rightarrow> extractor \<Rightarrow> string option \<Rightarrow> (py_error + Highlight list) \<times> extractor" where
  "get_highlights d clk ext book_title =
     (case ensure_connected d ext of
        Inl e \<Rightarrow> (Inl e, ext)
      | Inr ext' \<Rightarrow> (fetch_highlights ext' clk book_title, ext'))"

subsection \<open>export_to_markdown\<close>

text \<open>
  The calls of \<^verbatim>\<open>f.write\<close> made by the loop of the exporter, in order, for the records
  still to write and the title of the section that is open. The output file is opened
  after \<^verbatim>\<open>get_highlights\<close> has returned and then holds what was written; its directory
  is taken to exist.
\<close>

definition header :: "string \<Rightarrow> string" where
  "header title = newline @ ''## '' @ title @ newline @ newline"

definition record_writes :: "Highlight \<Rightarrow> string list" where
  "record_writes h =
     [''> '' @ hl_text h @ newline] @
     (if truthy_str (hl_note h)
      then [newline @ ''Note: '' @ py_str (hl_note h) @ newline] else []) @
     [newline @ ''- Chapter: '' @
        (if truthy_str (hl_chapter h) then py_str (hl_chapter h) else ''N/A'') @ newline,
      ''- Date: '' @ strftime (hl_created_at h) @ newline @ newline]"

fun writes :: "string option \<Rightarrow> Highlight list \<Rightarrow> string list" where
  "writes current_book [] = []"
| "writes current_book (h # hs) =
     (if Some (hl_book_title h) \<noteq> current_book then [header (hl_book_title h)] else []) @
     record_writes h @ writes (Some (hl_book_title h)) hs"

definition export_to_markdown ::
  "disk \<Rightarrow> clock \<Rightarrow> extractor \<Rightarrow> string \<Rightarrow> string option \<Rightarrow>
     (py_error + unit) \<times> disk \<times> extractor" where
  "export_to_markdown d clk ext output_path book_title =
     (case get_highlights d clk ext book_title of
        (Inl e, ext') \<Rightarrow> (Inl e, d, ext')
      | (Inr highlights, ext') \<Rightarrow>
          (Inr (), d(output_path \<mapsto> Document (concat (writes None highlights))), ext'))"

section \<open>Notions of the specification\<close>

text \<open>
  A write of the exporter is a section header when it opens with a newline and the
  level-2 mark.
\<close>

definition is_header :: "string \<Rightarrow> bool" where
  "is_header w = starts_with w (newline @ ''## '')"

text \<open>
  The titles that open a section: each title is paired with the one before it (nothing
  before the first), and the titles that differ from their predecessor are kept.
\<close>

definition section_titles :: "string list \<Rightarrow> string list" where
  "section_titles ts = map snd (filter (\<lambda>(p, c). p \<noteq> Some c) (zip (None # map Some ts) ts))"

text \<open>
  A candidate gives nothing when its statement fails or finds no row.
\<close>

definition gives_nothing :: "store_file \<Rightarrow> string \<Rightarrow> string \<times> string \<Rightarrow> bool" where
  "gives_nothing conn asset_id q =
     (case fetch_title conn q asset_id of
        Inl e \<Rightarrow> True
      | Inr None \<Rightarrow> True
      | Inr (Some title) \<Rightarrow> False)"

text \<open>
  The title a row is resolved to: the resolver is asked when the row has an identifier,
  and an answer counts when it is a title that is not empty.
\<close>

definition resolved_title :: "extractor \<Rightarrow> primary_row \<Rightarrow> string option" where
  "resolved_title ext r =
     (case row_book_id r of
        None \<Rightarrow> None
      | Some book_id \<Rightarrow>
          if book_id = [] then None
          else (case get_book_title ext book_id of
                  None \<Rightarrow> None
                | Some title \<Rightarrow> if title = [] then None else Some title))"

text \<open>
  A row is excluded by a filter title when it has a resolved title and the filter title,
  letter case apart, is no part of it.
\<close>

definition excluded :: "extractor \<Rightarrow> string \<Rightarrow> primary_row \<Rightarrow> bool" where
  "excluded ext filter_title r =
     (case resolved_title ext r of
        None \<Rightarrow> False
      | Some title \<Rightarrow> \<not> contains (lower title) (lower filter_title))"

text \<open>Newest first: no record is older than a record after it.\<close>

definition newest_first :: "Highlight list \<Rightarrow> bool" where
  "newest_first hs =
     sorted_wrt (\<lambda>a b. seconds (hl_created_at b) \<le> seconds (hl_created_at a)) hs"

text \<open>The stored timestamp of a row, moved to the 1970 epoch.\<close>

definition stamp :: "primary_row \<Rightarrow> datetime" where
  "stamp r = Datetime (case row_created_at r of None \<Rightarrow> 0 | Some t \<Rightarrow> t + 978307200)"

text \<open>
  A store in which every annotation has a creation date, and every book a date of last
  opening, that is neither NULL nor 0.
\<close>

definition stamped_table :: "('r \<Rightarrow> real option) \<Rightarrow> 'r table option \<Rightarrow> bool" where
  "stamped_table key t =
     (case t of None \<Rightarrow> True | Some tbl \<Rightarrow> list_all (\<lambda>r. truthy_num (key r)) (rows tbl))"

definition all_stamped :: "store_file option \<Rightarrow> bool" where
  "all_stamped conn =
     (case conn of
        None \<Rightarrow> True
      | Some (Document _) \<Rightarrow> True
      | Some (Sqlite db) \<Rightarrow>
          stamped_table ZANNOTATIONCREATIONDATE (ZAEANNOTATION db) \<and>
          stamped_table ZLASTOPENDATE (ZBKLIBRARYASSET db))"

text \<open>
  The note of the fallback for a book: none when author and description are both missing
  (NULL or empty), and otherwise both labels, each followed by what the field holds, the
  word None for NULL.
\<close>

definition render :: "string option \<Rightarrow> string" where
  "render v = (case v of None \<Rightarrow> ''None'' | Some s \<Rightarrow> s)"

definition missing :: "string option \<Rightarrow> bool" where
  "missing v = (case v of None \<Rightarrow> True | Some s \<Rightarrow> s = [])"

definition expected_note :: "info_row \<Rightarrow> string option" where
  "expected_note r =
     (if missing (info_author r) \<and> missing (info_description r) then None
      else Some (''Author: '' @ render (info_author r) @ newline @
                 ''Description: '' @ render (info_description r)))"

section \<open>Sample stores\<close>

definition annotation :: "string \<Rightarrow> real option \<Rightarrow> string option \<Rightarrow> ann_row" where
  "annotation txt ts book_id =
     \<lparr>ZANNOTATIONSELECTEDTEXT = Some txt,
      ZANNOTATIONCREATIONDATE = ts,
      ZANNOTATIONNOTE = None,
      ZANNOTATIONASSETID = book_id,
      ZANNOTATIONREPRESENTATIVETEXT = None,
      ZANNOTATIONTYPE = Some 2,
      ZANNOTATIONISUNDERLINE = Some 0,
      ZANNOTATIONDELETED = Some 0\<rparr>"

definition book ::
  "string \<Rightarrow> string option \<Rightarrow> string option \<Rightarrow> string option \<Rightarrow> book_row" where
  "book asset_id title author description =
     \<lparr>ZTITLE = title,
      ZASSETID = Some asset_id,
      ZBKASSETID = None,
      ZAUTHOR = author,
      ZREADINGPROGRESS = Some (1 / 2),
      ZLASTOPENDATE = Some 700000000,
      ZBOOKDESCRIPTION = description,
      ZGENRE = None\<rparr>"

definition annotation_store :: "ann_row list \<Rightarrow> store_file" where
  "annotation_store rs =
     Sqlite \<lparr>ZAEANNOTATION = Some \<lparr>columns = primary_columns, rows = rs\<rparr>,
             ZBKLIBRARYASSET = None,
             ZBKLIBRARY = None\<rparr>"

definition library_store :: "book_row list \<Rightarrow> store_file" where
  "library_store bs =
     Sqlite \<lparr>ZAEANNOTATION = None,
             ZBKLIBRARYASSET = Some \<lparr>columns = ''ZASSETID'' # info_columns, rows = bs\<rparr>,
             ZBKLIBRARY = None\<rparr>"

definition sample_disk :: "store_file \<Rightarrow> store_file \<Rightarrow> disk" where
  "sample_disk a l = [''annotations.sqlite'' \<mapsto> a, ''library.sqlite'' \<mapsto> l]"

definition fresh_extractor :: extractor where
  "fresh_extractor =
     \<lparr>annotation_db_path = ''annotations.sqlite'',
      library_db_path = Some ''library.sqlite'',
      annotation_conn = None,
      library_conn = None\<rparr>"

definition connected :: "store_file \<Rightarrow> store_file \<Rightarrow> extractor" where
  "connected a l = fresh_extractor\<lparr>annotation_conn := Some a, library_conn := Some l\<rparr>"

definition ex_clock :: clock where
  "ex_clock k = 1793793600 + real k"

definition later_clock :: clock where
  "later_clock k = 1793793660 + real k"

definition no_files :: disk where
  "no_files = Map.empty"

definition quote :: "string \<Rightarrow> real \<Rightarrow> string \<Rightarrow> Highlight" where
  "quote txt created title =
     \<lparr>hl_text = txt,
      hl_created_at = Datetime created,
      hl_book_title = title,
      hl_chapter = None,
      hl_note = Some ''Highlight''\<rparr>"

text \<open>A library with one book, and the record the fallback makes of it.\<close>

definition dune_library :: store_file where
  "dune_library = library_store [book ''B1'' (Some ''Dune'') (Some ''Frank Herbert'') None]"

definition dune_info :: Highlight where
  "dune_info =
     \<lparr>hl_text = ''Progress: 50.0%'',
      hl_created_at = Datetime 1678307200,
      hl_book_title = ''Dune'',
      hl_chapter = None,
      hl_note = Some (''Author: Frank Herbert'' @ newline @ ''Description: None'')\<rparr>"

text \<open>An annotation store with one highlight of that book, and the row the query gives.\<close>

definition one_store :: store_file where
  "one_store = annotation_store [annotation ''spice'' (Some 100) (Some ''B1'')]"

definition one_disk :: disk where
  "one_disk = sample_disk one_store dune_library"

definition one_row :: primary_row where
  "one_row =
     \<lparr>row_text = ''spice'',
      row_created_at = Some 100,
      row_note = None,
      row_book_id = Some ''B1'',
      row_representative_text = None,
      row_annotation_type = Some 2,
      row_is_underline = Some 0\<rparr>"

text \<open>An annotation store whose table is there and holds no row.\<close>

definition empty_store :: store_file where
  "empty_store = annotation_store []"

definition empty_disk :: disk where
  "empty_disk = sample_disk empty_store dune_library"

text \<open>An annotation store of another schema version: the table of the query is missing.\<close>

definition drifted_store :: store_file where
  "drifted_store = Sqlite \<lparr>ZAEANNOTATION = None, ZBKLIBRARYASSET = None, ZBKLIBRARY = None\<rparr>"

definition drifted_disk :: disk where
  "drifted_disk = sample_disk drifted_store dune_library"

text \<open>An annotation whose stored timestamp is the number 0, the first instant of 2001.\<close>

definition zero_disk :: disk where
  "zero_disk =
     sample_disk (annotation_store [annotation ''epoch'' (Some 0) (Some ''B1'')]) dune_library"

text \<open>
  A library of an older schema, where the key column has its other name, and a library
  whose only book has the empty string for a title.
\<close>

definition legacy_library :: store_file where
  "legacy_library =
     Sqlite \<lparr>ZAEANNOTATION = None,
             ZBKLIBRARYASSET =
               Some \<lparr>columns = [''ZTITLE'', ''ZBKASSETID''],
                     rows = [\<lparr>ZTITLE = Some ''Dune'', ZASSETID = None, ZBKASSETID = Some ''B1'',
                              ZAUTHOR = None, ZREADINGPROGRESS = None, ZLASTOPENDATE = None,
                              ZBOOKDESCRIPTION = None, ZGENRE = None\<rparr>]\<rparr>,
             ZBKLIBRARY = None\<rparr>"

definition untitled_library :: store_file where
  "untitled_library = library_store [book ''B7'' (Some '''') None None]"

text \<open>Four records with the titles A, A, B, A.\<close>

definition ex_records :: "Highlight list" where
  "ex_records =
     [quote ''one'' 978307500 ''A'', quote ''two'' 978307400 ''A'',
      quote ''three'' 978307300 ''B'', quote ''four'' 978307200 ''A'']"

text \<open>The row the fallback query gives for the book of \<open>dune_library\<close>.\<close>

definition dune_row :: info_row where
  "dune_row =
     \<lparr>info_book_title = ''Dune'',
      info_author = Some ''Frank Herbert'',
      info_progress = Some (1 / 2),
      info_last_opened = Some 700000000,
      info_description = None,
      info_genre = None\<rparr>"

text \<open>
  A library of two books, and three rows of the primary query: one of each book and one
  whose identifier the library does not know.
\<close>

definition two_books :: store_file where
  "two_books =
     library_store [book ''B1'' (Some ''Dune'') (Some ''Frank Herbert'') None,
                    book ''B2'' (Some ''Foundation'') None None]"

definition shelf_row :: "string \<Rightarrow> real option \<Rightarrow> string \<Rightarrow> primary_row" where
  "shelf_row txt ts book_id =
     \<lparr>row_text = txt,
      row_created_at = ts,
      row_note = None,
      row_book_id = Some book_id,
      row_representative_text = None,
      row_annotation_type = Some 2,
      row_is_underline = Some 0\<rparr>"

definition shelf_rows :: "primary_row list" where
  "shelf_rows =
     [shelf_row ''fear'' (Some 300) ''B1'', shelf_row ''psychohistory'' (Some 200) ''B2'',
      shelf_row ''loose'' (Some 100) ''B9'']"

text \<open>An annotation store with a dated highlight and one whose timestamp is NULL.\<close>

definition null_store :: store_file where
  "null_store =
     annotation_store [annotation ''dated'' (Some 100) (Some ''B1''),
                       annotation ''undated'' None (Some ''B1'')]"

definition null_disk :: disk where
  "null_disk = sample_disk null_store dune_library"

text \<open>
  A library with a book whose description is the empty string, and a book whose author is
  the empty string and whose description is NULL.
\<close>

definition odd_library :: store_file where
  "odd_library =
     library_store [book ''B1'' (Some ''Dune'') (Some ''Frank Herbert'') (Some ''''),
                    book ''B2'' (Some ''Foundation'') (Some '''') None]"

definition odd_info :: "string \<Rightarrow> string option \<Rightarrow> Highlight" where
  "odd_info title note_text =
     \<lparr>hl_text = ''Progress: 50.0%'',
      hl_created_at = Datetime 1678307200,
      hl_book_title = title,
      hl_chapter = None,
      hl_note = note_text\<rparr>"

text \<open>The annotation store that holds the three rows of \<open>shelf_rows\<close>, in another order.\<close>

definition shelf_store :: store_file where
  "shelf_store =
     annotation_store [annotation ''psychohistory'' (Some 200) (Some ''B2''),
                       annotation ''loose'' (Some 100) (Some ''B9''),
                       annotation ''fear'' (Some 300) (Some ''B1'')]"

definition shelf_disk :: disk where
  "shelf_disk = sample_disk shelf_store two_books"

section \<open>Auxiliary facts\<close>

lemmas sample_defs =
  annotation_def book_def annotation_store_def library_store_def sample_disk_def
  fresh_extractor_def connected_def ex_clock_def quote_def dune_library_def dune_info_def
  one_store_def one_disk_def one_row_def

lemmas string_defs =
  newline_def lower_def lower_char_def digit_def pad2_def pad4_def round_half_even_def format_1f_def

lemmas date_defs =
  strftime_def format_seconds_def format_time_def civil_from_days_def from_day_of_era_def
  from_year_of_era_def from_day_of_year_def year_month_day_def pad2_def pad4_def digit_def

lemmas query_defs =
  has_columns_def primary_columns_def info_columns_def queries_def library_table_def
  key_column_def fetch_title_def get_book_title_def select_primary_def order_by_desc_def
  primary_query_def table_names_def select_info_def book_info_query_def List.map_filter_def

lemmas run_defs =
  fromtimestamp_def connect_def ensure_connected_def convert_timestamp_def info_highlight_def
  get_book_info_def row_highlight_text_def row_note_text_def current_book_title_def skip_row_def
  shown_book_title_def row_highlight_def process_row_def fetch_highlights_def get_highlights_def

subsection \<open>Substrings\<close>

lemma starts_with_iff: "starts_with s sub \<longleftrightarrow> (\<exists>q. s = sub @ q)"
  by (induction s sub rule: starts_with.induct) auto

lemma contains_iff: "contains s sub \<longleftrightarrow> (\<exists>p q. s = p @ sub @ q)"
proof (induction s)
  case Nil
  then show ?case by auto
next
  case (Cons d s)
  show ?case
  proof
    assume "contains (d # s) sub"
    then consider "starts_with (d # s) sub" | "contains s sub"
      by auto
    then show "\<exists>p q. d # s = p @ sub @ q"
    proof cases
      case 1
      then obtain q where "d # s = [] @ sub @ q"
        by (auto simp: starts_with_iff)
      then show ?thesis by blast
    next
      case 2
      then obtain p q where "s = p @ sub @ q"
        using Cons.IH by blast
      then have "d # s = (d # p) @ sub @ q" by simp
      then show ?thesis by blast
    qed
  next
    assume "\<exists>p q. d # s = p @ sub @ q"
    then obtain p q where pq: "d # s = p @ sub @ q" by blast
    show "contains (d # s) sub"
    proof (cases p)
      case Nil
      with pq have "starts_with (d # s) sub"
        by (auto simp: starts_with_iff)
      then show ?thesis by simp
    next
      case (Cons e p')
      with pq have "s = p' @ sub @ q" by simp
      then have "contains s sub" using Cons.IH by blast
      then show ?thesis by simp
    qed
  qed
qed

lemma contains_empty: "contains s []"
  by (cases s) simp_all

subsection \<open>The candidates of the title resolver\<close>

lemma fetch_title_document: "fetch_title (Document b) q a = Inl DatabaseError"
  by (simp add: fetch_title_def)

lemma fetch_title_sqlite: "fetch_title (Sqlite db) q a = Inl e \<Longrightarrow> e = OperationalError"
  by (auto simp: fetch_title_def split: option.splits if_splits)

lemma try_queries_sqlite:
  "try_queries (Sqlite db) a qs =
     Inr (case List.map_filter
                 (\<lambda>q. case fetch_title (Sqlite db) q a of Inl e \<Rightarrow> None | Inr found \<Rightarrow> found)
                 qs of
            [] \<Rightarrow> None
          | title # _ \<Rightarrow> title)"
proof (induction qs)
  case Nil
  then show ?case by (simp add: List.map_filter_simps)
next
  case (Cons q qs)
  then show ?case
    by (auto simp: List.map_filter_simps dest: fetch_title_sqlite
        split: sum.splits option.splits)
qed

lemma map_filter_document:
  "List.map_filter
     (\<lambda>q. case fetch_title (Document b) q a of Inl e \<Rightarrow> None | Inr found \<Rightarrow> found) qs = []"
  by (induction qs) (simp_all add: List.map_filter_simps fetch_title_document)

lemma try_queries_document:
  "try_queries (Document b) a qs = Inl DatabaseError \<or> try_queries (Document b) a qs = Inr None"
  by (cases qs) (simp_all add: fetch_title_document)

lemma get_book_title_map_filter:
  "library_conn ext = Some conn \<Longrightarrow>
   get_book_title ext a =
     (case List.map_filter
             (\<lambda>q. case fetch_title conn q a of Inl e \<Rightarrow> None | Inr found \<Rightarrow> found) queries of
        [] \<Rightarrow> None
      | title # _ \<Rightarrow> title)"
proof (cases conn)
  case (Sqlite db)
  assume "library_conn ext = Some conn"
  with Sqlite show ?thesis
    by (simp add: get_book_title_def try_queries_sqlite)
next
  case (Document b)
  assume "library_conn ext = Some conn"
  with Document show ?thesis
    using try_queries_document [of b a queries]
    by (auto simp: get_book_title_def map_filter_document)
qed

lemma map_filter_gives_nothing:
  "list_all (gives_nothing conn a) qs \<Longrightarrow>
   List.map_filter
     (\<lambda>q. case fetch_title conn q a of Inl e \<Rightarrow> None | Inr found \<Rightarrow> found) qs = []"
  by (induction qs)
     (auto simp: List.map_filter_simps gives_nothing_def split: sum.splits option.splits)

lemma map_filter_append:
  "List.map_filter f (xs @ ys) = List.map_filter f xs @ List.map_filter f ys"
  by (simp add: List.map_filter_def)

subsection \<open>The order of the rows\<close>

lemma set_insert_desc: "set (insert_desc key r xs) = insert r (set xs)"
  by (induction xs) auto

lemma set_order_by_desc: "set (order_by_desc key xs) = set xs"
  by (induction xs) (simp_all add: order_by_desc_def set_insert_desc)

lemma order_by_desc_all: "list_all P (order_by_desc key xs) = list_all P xs"
  by (simp add: list_all_iff set_order_by_desc)

lemma sql_less_total: "\<not> sql_less a b \<Longrightarrow> \<not> sql_less b c \<Longrightarrow> \<not> sql_less a c"
  by (cases a; cases b; cases c) auto

lemma sql_less_asym: "sql_less a b \<Longrightarrow> \<not> sql_less b a"
  by (cases a; cases b) auto

lemma sorted_insert_desc:
  "sorted_wrt (\<lambda>x y. \<not> sql_less (key x) (key y)) xs \<Longrightarrow>
   sorted_wrt (\<lambda>x y. \<not> sql_less (key x) (key y)) (insert_desc key r xs)"
proof (induction xs)
  case Nil
  then show ?case by simp
next
  case (Cons x xs)
  show ?case
  proof (cases "sql_less (key r) (key x)")
    case True
    with Cons show ?thesis
      by (auto simp: set_insert_desc dest: sql_less_asym)
  next
    case False
    with Cons.prems show ?thesis
      by (auto dest: sql_less_total)
  qed
qed

lemma sorted_order_by_desc:
  "sorted_wrt (\<lambda>x y. \<not> sql_less (key x) (key y)) (order_by_desc key xs)"
proof (induction xs)
  case Nil
  then show ?case by (simp add: order_by_desc_def)
next
  case (Cons x xs)
  then show ?case
    using sorted_insert_desc [of key "order_by_desc key xs" x]
    by (simp add: order_by_desc_def)
qed

subsection \<open>The statements on the stores\<close>

lemma primary_query_table_names:
  "primary_query conn = Inr found \<Longrightarrow> \<exists>ts. table_names conn = Inr ts"
  by (cases conn) (simp_all add: primary_query_def table_names_def)

lemma primary_query_structural:
  "primary_query conn = Inl OperationalError \<Longrightarrow> \<exists>ts. table_names conn = Inr ts"
  by (cases conn) (simp_all add: primary_query_def table_names_def)

lemma primary_query_sorted:
  "primary_query conn = Inr found \<Longrightarrow>
   sorted_wrt (\<lambda>x y. \<not> sql_less (row_created_at x) (row_created_at y)) found"
  by (auto simp: primary_query_def sorted_order_by_desc
      split: store_file.splits option.splits if_splits)

lemma select_primary_stamp:
  "select_primary r = Some p \<Longrightarrow> row_created_at p = ZANNOTATIONCREATIONDATE r"
  by (auto simp: select_primary_def split: option.splits if_splits)

lemma select_info_stamp:
  "select_info r = Some p \<Longrightarrow> info_last_opened p = ZLASTOPENDATE r"
  by (auto simp: select_info_def split: option.splits)

lemma map_filter_all:
  "list_all P xs \<Longrightarrow> (\<And>x y. P x \<Longrightarrow> f x = Some y \<Longrightarrow> Q y) \<Longrightarrow>
   list_all Q (List.map_filter f xs)"
  by (induction xs) (auto simp: List.map_filter_simps split: option.splits)

lemma primary_query_stamped:
  "all_stamped (Some conn) \<Longrightarrow> primary_query conn = Inr found \<Longrightarrow>
   list_all (\<lambda>r. truthy_num (row_created_at r)) found"
  by (auto simp: all_stamped_def stamped_table_def primary_query_def order_by_desc_all
      select_primary_stamp
      intro!: map_filter_all [where P = "\<lambda>r. truthy_num (ZANNOTATIONCREATIONDATE r)"]
      split: store_file.splits option.splits if_splits)

lemma book_info_query_stamped:
  assumes "all_stamped (Some conn)" and "book_info_query conn bt = Inr found"
  shows "list_all (\<lambda>r. truthy_num (info_last_opened r)) found"
proof -
  from assms(2) obtain db t where conn: "conn = Sqlite db" and t: "ZBKLIBRARYASSET db = Some t"
    by (auto simp: book_info_query_def split: store_file.splits option.splits)
  with assms(1) have "list_all (\<lambda>r. truthy_num (ZLASTOPENDATE r)) (rows t)"
    by (simp add: all_stamped_def stamped_table_def)
  then have all: "list_all (\<lambda>r. truthy_num (info_last_opened r))
      (List.map_filter select_info (rows t))"
    by (rule map_filter_all) (simp add: select_info_stamp)
  from assms(2) conn t consider
      "found = filter (\<lambda>r. like (lower (''%'' @ py_str bt @ ''%'')) (lower (info_book_title r)))
                 (List.map_filter select_info (rows t))"
    | "found = order_by_desc info_last_opened (List.map_filter select_info (rows t))"
    by (auto simp: book_info_query_def Let_def split: if_splits)
  then show ?thesis
  proof cases
    case 1
    with all show ?thesis
      by (simp add: list_all_iff)
  next
    case 2
    with all show ?thesis
      by (simp add: order_by_desc_all)
  qed
qed

subsection \<open>The conversion of a timestamp\<close>

lemma convert_error: "convert_timestamp clk k ts = Inl e \<Longrightarrow> e = OutOfRange"
  by (cases ts) (auto simp: convert_timestamp_def fromtimestamp_def split: if_splits)

lemma convert_null: "convert_timestamp clk k None = Inr (Datetime (clk k), Suc k)"
  by (simp add: convert_timestamp_def)

lemma convert_truthy:
  "truthy_num ts \<Longrightarrow> convert_timestamp clk k ts = Inr (dt, k') \<Longrightarrow>
   k' = k \<and> dt = Datetime (case ts of None \<Rightarrow> 0 | Some t \<Rightarrow> t + 978307200)"
  by (cases ts) (auto simp: convert_timestamp_def fromtimestamp_def split: if_splits)

lemma convert_without_clock:
  "truthy_num ts \<Longrightarrow> convert_timestamp clk1 k ts = convert_timestamp clk2 k ts"
  by (cases ts) (simp_all add: convert_timestamp_def)

lemma convert_counter:
  "truthy_num ts \<Longrightarrow> convert_timestamp clk k ts = Inr (dt, k') \<Longrightarrow> k' = k"
  by (cases ts) (auto simp: convert_timestamp_def split: sum.splits if_splits)

subsection \<open>The loop over the rows of the primary query\<close>

text \<open>
  The loop raises nothing but the error of the conversion, so the handler of
  \<open>OperationalError\<close> is reached from the statement only.
\<close>

lemma process_row_error: "process_row ext clk bt k r = Inl e \<Longrightarrow> e = OutOfRange"
  by (auto simp: process_row_def Let_def dest: convert_error split: sum.splits if_splits)

lemma collect_error: "collect ext clk bt rs k acc = Inl e \<Longrightarrow> e = OutOfRange"
proof (induction rs arbitrary: k acc)
  case Nil
  then show ?case by simp
next
  case (Cons r rs)
  then show ?case
    by (auto dest: process_row_error split: sum.splits option.splits)
qed

lemma skip_row_excluded:
  "skip_row (Some ft) (current_book_title ext r) \<longleftrightarrow> excluded ext ft r"
proof (cases "ft = []")
  case True
  then show ?thesis
    by (simp add: skip_row_def excluded_def lower_def contains_empty split: option.splits)
next
  case False
  then show ?thesis
    by (cases "row_book_id r"; cases "get_book_title ext (py_str (row_book_id r))")
       (auto simp: skip_row_def excluded_def resolved_title_def current_book_title_def)
qed

lemma process_row_result:
  "process_row ext clk bt k r = Inr (res, k') \<Longrightarrow>
   res = (if skip_row bt (current_book_title ext r) then None
          else Some (row_highlight r (current_book_title ext r)
                       (fst (projr (convert_timestamp clk k (row_created_at r))))))"
  by (auto simp: process_row_def Let_def split: sum.splits if_splits)

lemma created_at_of_row:
  "process_row ext clk bt k r = Inr (Some h, k') \<Longrightarrow>
   hl_created_at h =
     (case row_created_at r of
        None \<Rightarrow> Datetime (clk k)
      | Some t \<Rightarrow> if t = 0 then Datetime (clk k) else Datetime (t + 978307200))"
  by (auto simp: process_row_def Let_def convert_timestamp_def fromtimestamp_def
      row_highlight_def split: sum.splits if_splits option.splits)

lemma process_row_truthy:
  "truthy_num (row_created_at r) \<Longrightarrow> process_row ext clk bt k r = Inr (res, k') \<Longrightarrow>
   k' = k \<and>
   res = (if skip_row bt (current_book_title ext r) then None
          else Some (row_highlight r (current_book_title ext r) (stamp r)))"
  by (auto simp: process_row_def Let_def stamp_def dest: convert_truthy
      split: sum.splits if_splits)

lemma process_row_without_clock:
  "truthy_num (row_created_at r) \<Longrightarrow>
   process_row ext clk1 bt k r = process_row ext clk2 bt k r"
  by (simp add: process_row_def convert_without_clock [of _ clk1 k clk2])

lemma process_row_counter:
  "truthy_num (row_created_at r) \<Longrightarrow> process_row ext clk bt k r = Inr (res, k') \<Longrightarrow> k' = k"
  by (auto simp: process_row_def Let_def dest: convert_counter split: sum.splits if_splits)

lemma collect_texts:
  "collect ext clk bt rs k acc = Inr (hs, k') \<Longrightarrow>
   map hl_text hs =
     map hl_text acc @
     map row_highlight_text (filter (\<lambda>r. \<not> skip_row bt (current_book_title ext r)) rs)"
proof (induction rs arbitrary: k acc)
  case Nil
  then show ?case by simp
next
  case (Cons r rs)
  from Cons.prems obtain res k1 where
    step: "process_row ext clk bt k r = Inr (res, k1)"
    by (auto split: sum.splits)
  show ?case
  proof (cases res)
    case None
    with step Cons.prems have "collect ext clk bt rs k1 acc = Inr (hs, k')"
      by simp
    from Cons.IH [OF this] process_row_result [OF step] None show ?thesis
      by (simp split: if_splits)
  next
    case (Some h)
    with step Cons.prems have "collect ext clk bt rs k1 (acc @ [h]) = Inr (hs, k')"
      by simp
    from Cons.IH [OF this] process_row_result [OF step] Some show ?thesis
      by (simp add: row_highlight_def split: if_splits)
  qed
qed

lemma collect_stamps:
  "list_all (\<lambda>r. truthy_num (row_created_at r)) rs \<Longrightarrow>
   collect ext clk bt rs k acc = Inr (hs, k') \<Longrightarrow>
   map hl_created_at hs =
     map hl_created_at acc @
     map stamp (filter (\<lambda>r. \<not> skip_row bt (current_book_title ext r)) rs)"
proof (induction rs arbitrary: k acc)
  case Nil
  then show ?case by simp
next
  case (Cons r rs)
  from Cons.prems obtain res k1 where
    step: "process_row ext clk bt k r = Inr (res, k1)"
    by (auto split: sum.splits)
  from Cons.prems have r: "truthy_num (row_created_at r)"
    and rs: "list_all (\<lambda>r. truthy_num (row_created_at r)) rs"
    by simp_all
  note res = process_row_truthy [OF r step]
  show ?case
  proof (cases res)
    case None
    with step Cons.prems have "collect ext clk bt rs k1 acc = Inr (hs, k')"
      by simp
    from Cons.IH [OF rs this] res None show ?thesis
      by (simp split: if_splits)
  next
    case (Some h)
    with step Cons.prems have "collect ext clk bt rs k1 (acc @ [h]) = Inr (hs, k')"
      by simp
    from Cons.IH [OF rs this] res Some show ?thesis
      by (simp add: row_highlight_def split: if_splits)
  qed
qed

lemma stamps_newest_first:
  assumes sorted: "sorted_wrt (\<lambda>x y. \<not> sql_less (row_created_at x) (row_created_at y)) rs"
    and truthy: "list_all (\<lambda>r. truthy_num (row_created_at r)) rs"
  shows "sorted_wrt (\<lambda>a b. seconds b \<le> seconds a) (map stamp (filter keep rs))"
proof -
  have "sorted_wrt (\<lambda>x y. seconds (stamp y) \<le> seconds (stamp x)) rs"
  proof (rule sorted_wrt_mono_rel [OF _ sorted])
    fix x y
    assume "x \<in> set rs" "y \<in> set rs"
      and le: "\<not> sql_less (row_created_at x) (row_created_at y)"
    with truthy have "truthy_num (row_created_at x)" "truthy_num (row_created_at y)"
      by (simp_all add: list_all_iff)
    with le show "seconds (stamp y) \<le> seconds (stamp x)"
      by (cases "row_created_at x"; cases "row_created_at y") (simp_all add: stamp_def)
  qed
  then have "sorted_wrt (\<lambda>x y. seconds (stamp y) \<le> seconds (stamp x)) (filter keep rs)"
    by (rule sorted_wrt_filter)
  then show ?thesis
    by (simp add: sorted_wrt_map)
qed

lemma collect_without_clock:
  "list_all (\<lambda>r. truthy_num (row_created_at r)) rs \<Longrightarrow>
   collect ext clk1 bt rs k acc = collect ext clk2 bt rs k acc"
proof (induction rs arbitrary: acc)
  case Nil
  then show ?case by simp
next
  case (Cons r rs)
  then have r: "truthy_num (row_created_at r)"
    and rs: "list_all (\<lambda>r. truthy_num (row_created_at r)) rs"
    by simp_all
  note same = process_row_without_clock [OF r, of ext clk1 bt k clk2]
  show ?case
  proof (cases "process_row ext clk2 bt k r")
    case (Inl e)
    with same show ?thesis by simp
  next
    case (Inr p)
    obtain res k1 where p: "p = (res, k1)"
      by (cases p)
    with Inr process_row_counter [OF r, of ext clk2 bt k res k1] have "k1 = k"
      by simp
    with Inr p same Cons.IH [OF rs] show ?thesis
      by (cases res) simp_all
  qed
qed

subsection \<open>The loop of the fallback\<close>

lemma info_loop_without_clock:
  "list_all (\<lambda>r. truthy_num (info_last_opened r)) rs \<Longrightarrow>
   info_loop clk1 rs k acc = info_loop clk2 rs k acc"
proof (induction rs arbitrary: acc)
  case Nil
  then show ?case by simp
next
  case (Cons r rs)
  then have r: "truthy_num (info_last_opened r)"
    and rs: "list_all (\<lambda>r. truthy_num (info_last_opened r)) rs"
    by simp_all
  note same = convert_without_clock [OF r, of clk1 k clk2]
  show ?case
  proof (cases "convert_timestamp clk2 k (info_last_opened r)")
    case (Inl e)
    with same show ?thesis by simp
  next
    case (Inr p)
    obtain dt k1 where p: "p = (dt, k1)"
      by (cases p)
    with Inr convert_counter [OF r, of clk2 k dt k1] have "k1 = k"
      by simp
    with Inr p same Cons.IH [OF rs] show ?thesis
      by simp
  qed
qed

lemma info_loop_notes:
  "info_loop clk rs k acc = Inr hs \<Longrightarrow> map hl_note hs = map hl_note acc @ map expected_note rs"
proof (induction rs arbitrary: k acc)
  case Nil
  then show ?case by simp
next
  case (Cons r rs)
  from Cons.prems obtain dt k1 where
    "info_loop clk rs k1 (acc @ [info_highlight r dt]) = Inr hs"
    by (auto split: sum.splits)
  from Cons.IH [OF this] show ?case
    by (cases "info_author r"; cases "info_description r")
       (simp_all add: info_highlight_def expected_note_def missing_def render_def)
qed

lemma get_book_info_without_clock:
  "all_stamped (library_conn ext) \<Longrightarrow>
   get_book_info ext clk1 k bt = get_book_info ext clk2 k bt"
  by (auto simp: get_book_info_def dest!: book_info_query_stamped
      intro: info_loop_without_clock split: option.splits sum.splits)

subsection \<open>A run without a reading of the clock\<close>

lemma fetch_highlights_without_clock:
  assumes ann: "all_stamped (annotation_conn ext)"
    and lib: "all_stamped (library_conn ext)"
  shows "fetch_highlights ext clk1 bt = fetch_highlights ext clk2 bt"
proof (cases "annotation_conn ext")
  case None
  then show ?thesis by (simp add: fetch_highlights_def)
next
  case (Some conn)
  note info = get_book_info_without_clock [OF lib, of clk1 _ bt clk2]
  show ?thesis
  proof (cases "primary_query conn")
    case (Inl e)
    with Some info show ?thesis
      by (simp add: fetch_highlights_def split: sum.splits)
  next
    case (Inr found)
    from ann Some have "all_stamped (Some conn)" by simp
    from primary_query_stamped [OF this Inr]
    have truthy: "list_all (\<lambda>r. truthy_num (row_created_at r)) found" .
    note same = collect_without_clock [OF truthy, of ext clk1 bt 0 "[]" clk2]
    show ?thesis
    proof (cases "collect ext clk2 bt found 0 []")
      case (Inl e)
      with Some Inr same info show ?thesis
        by (simp add: fetch_highlights_def split: sum.splits)
    next
      case inner: (Inr p)
      with Some Inr same info show ?thesis
        by (simp add: fetch_highlights_def split: sum.splits prod.splits)
    qed
  qed
qed

subsection \<open>The writes of the exporter\<close>

lemma is_header_header: "is_header (header t)"
  by (simp add: is_header_def header_def newline_def)

lemma no_header_in_record_writes: "filter is_header (record_writes h) = []"
  by (simp add: is_header_def record_writes_def newline_def)

lemma headers_of_writes:
  "filter is_header (writes cur hs) =
     map header (map snd (filter (\<lambda>(p, c). p \<noteq> Some c)
       (zip (cur # map Some (map hl_book_title hs)) (map hl_book_title hs))))"
  by (induction hs arbitrary: cur) (simp_all add: is_header_header no_header_in_record_writes)

lemma exported_document:
  "fst (get_highlights d clk ext bt) = Inr hs \<Longrightarrow>
   fst (snd (export_to_markdown d clk ext out bt)) out =
     Some (Document (concat (writes None hs)))"
  by (cases "get_highlights d clk ext bt") (simp add: export_to_markdown_def)

section \<open>Properties\<close>

subsection \<open>C1: what get_highlights returns when the primary query succeeds\<close>

text \<open>
  C1, as the specification has it: when the primary query runs without a structural
  error, the rows it gives, normalized, are what \<^verbatim>\<open>get_highlights\<close> returns, also when
  there are none, and the fallback is not called. On the store \<open>empty_disk\<close> the query
  succeeds with no row, the loop leaves the empty list, and \<^verbatim>\<open>get_highlights\<close> returns
  the record that the fallback makes of the one book of the library.
\<close>

theorem empty_primary_result_falls_back:
  "primary_query empty_store = Inr [] \<and>
   collect (connected empty_store dune_library) ex_clock None [] 0 [] = Inr ([], 0) \<and>
   fst (get_highlights empty_disk ex_clock fresh_extractor None) = Inr [dune_info]"
  by (simp add: sample_defs empty_store_def empty_disk_def string_defs query_defs run_defs)

text \<open>
  C1, amended: when the primary query runs without a structural error and the loop over
  its rows ends with the list \<open>hs\<close>, \<^verbatim>\<open>get_highlights\<close> returns \<open>hs\<close> if it is not
  empty; if it is empty, \<^verbatim>\<open>get_highlights\<close> calls the fallback with the same filter
  and returns what the fallback returns.
\<close>

theorem returns_primary_rows_or_falls_back:
  "ensure_connected d ext = Inr ext' \<Longrightarrow> annotation_conn ext' = Some conn \<Longrightarrow>
   primary_query conn = Inr found \<Longrightarrow> collect ext' clk book_title found 0 [] = Inr (hs, k) \<Longrightarrow>
   fst (get_highlights d clk ext book_title) =
     (if hs \<noteq> [] then Inr hs else get_book_info ext' clk k book_title)"
  using primary_query_table_names [of conn found]
  by (auto simp: get_highlights_def fetch_highlights_def)

theorem returns_primary_rows_or_falls_back_witness:
  "ensure_connected one_disk fresh_extractor = Inr (connected one_store dune_library) \<and>
   annotation_conn (connected one_store dune_library) = Some one_store \<and>
   primary_query one_store = Inr [one_row] \<and>
   collect (connected one_store dune_library) ex_clock None [one_row] 0 [] =
     Inr ([quote ''spice'' 978307300 ''Dune''], 0) \<and>
   fst (get_highlights one_disk ex_clock fresh_extractor None) =
     Inr [quote ''spice'' 978307300 ''Dune'']"
proof -
  have conn: "ensure_connected one_disk fresh_extractor = Inr (connected one_store dune_library)"
    by (simp add: sample_defs run_defs)
  have ann: "annotation_conn (connected one_store dune_library) = Some one_store"
    by (simp add: sample_defs)
  have found: "primary_query one_store = Inr [one_row]"
    by (simp add: sample_defs query_defs)
  have loop: "collect (connected one_store dune_library) ex_clock None [one_row] 0 [] =
      Inr ([quote ''spice'' 978307300 ''Dune''], 0)"
    by (simp add: sample_defs run_defs query_defs string_defs)
  from returns_primary_rows_or_falls_back [OF conn ann found loop]
  have "fst (get_highlights one_disk ex_clock fresh_extractor None) =
      Inr [quote ''spice'' 978307300 ''Dune'']"
    by simp
  with conn ann found loop show ?thesis
    by blast
qed

subsection \<open>C2: the creation time of a highlight\<close>

text \<open>
  C2: a row with a stored timestamp \<open>t\<close> that is not NULL gets \<open>t + 978307200\<close> as its
  creation time, and a row with NULL gets the current time. The store \<open>zero_disk\<close> has
  one row, with the stored timestamp 0: the test of the loop takes 0 for an absent
  value, and the highlight carries the reading of the clock, not 978307200. For every
  other stored value the creation time is as the claim says (\<open>created_at_of_row\<close>).
\<close>

theorem zero_timestamp_takes_clock_reading:
  "fst (get_highlights zero_disk ex_clock fresh_extractor None) =
     Inr [quote ''epoch'' (ex_clock 0) ''Dune''] \<and>
   ex_clock 0 = 1793793600 \<and> ex_clock 0 \<noteq> 0 + 978307200"
  by (simp add: sample_defs zero_disk_def string_defs query_defs run_defs)

subsection \<open>C3: the title resolver\<close>

text \<open>
  C3, as the specification has it: a title returned by \<^verbatim>\<open>get_book_title\<close> is never
  empty. The only book of \<open>untitled_library\<close> has the empty string for its title, and
  that is what the resolver returns for it.
\<close>

theorem empty_title_is_returned:
  "get_book_title (connected one_store untitled_library) ''B7'' = Some ''''"
  by (simp add: sample_defs untitled_library_def query_defs)

text \<open>
  C3, amended: without a library connection \<^verbatim>\<open>get_book_title\<close> returns none. With
  one, it tries its three candidates in order, goes past every candidate that fails or
  finds no row, and returns the title column of the first row found, whatever it holds
  (it may be empty, or NULL, which is none); it returns none when every candidate fails
  or finds nothing.
\<close>

theorem get_book_title_first_row:
  "(library_conn ext = None \<longrightarrow> get_book_title ext asset_id = None) \<and>
   (library_conn ext = Some conn \<longrightarrow> queries = before @ q # after \<longrightarrow>
    list_all (gives_nothing conn asset_id) before \<longrightarrow>
    fetch_title conn q asset_id = Inr (Some title) \<longrightarrow>
      get_book_title ext asset_id = title) \<and>
   (library_conn ext = Some conn \<longrightarrow> list_all (gives_nothing conn asset_id) queries \<longrightarrow>
      get_book_title ext asset_id = None)"
proof (intro conjI impI)
  assume "library_conn ext = None"
  then show "get_book_title ext asset_id = None"
    by (simp add: get_book_title_def)
next
  assume conn: "library_conn ext = Some conn"
    and split: "queries = before @ q # after"
    and skipped: "list_all (gives_nothing conn asset_id) before"
    and row: "fetch_title conn q asset_id = Inr (Some title)"
  let ?f = "\<lambda>q. case fetch_title conn q asset_id of Inl e \<Rightarrow> None | Inr found \<Rightarrow> found"
  have "List.map_filter ?f queries = List.map_filter ?f (before @ q # after)"
    by (subst split) (rule refl)
  also have "\<dots> = List.map_filter ?f before @ List.map_filter ?f (q # after)"
    by (rule map_filter_append)
  also have "\<dots> = title # List.map_filter ?f after"
    using map_filter_gives_nothing [OF skipped] row
    by (simp add: List.map_filter_simps)
  finally have "List.map_filter ?f queries = title # List.map_filter ?f after" .
  with get_book_title_map_filter [OF conn, of asset_id]
  show "get_book_title ext asset_id = title"
    by simp
next
  assume conn: "library_conn ext = Some conn"
    and skipped: "list_all (gives_nothing conn asset_id) queries"
  from get_book_title_map_filter [OF conn, of asset_id] map_filter_gives_nothing [OF skipped]
  show "get_book_title ext asset_id = None"
    by simp
qed

theorem get_book_title_first_row_witness:
  "library_conn fresh_extractor = None \<and>
   get_book_title fresh_extractor ''B1'' = None \<and>
   library_conn (connected one_store legacy_library) = Some legacy_library \<and>
   queries = [(''ZBKLIBRARYASSET'', ''ZASSETID'')] @ (''ZBKLIBRARYASSET'', ''ZBKASSETID'') #
               [(''ZBKLIBRARY'', ''ZASSETID'')] \<and>
   fetch_title legacy_library (''ZBKLIBRARYASSET'', ''ZASSETID'') ''B1'' = Inl OperationalError \<and>
   list_all (gives_nothing legacy_library ''B1'') [(''ZBKLIBRARYASSET'', ''ZASSETID'')] \<and>
   fetch_title legacy_library (''ZBKLIBRARYASSET'', ''ZBKASSETID'') ''B1'' =
     Inr (Some (Some ''Dune'')) \<and>
   get_book_title (connected one_store legacy_library) ''B1'' = Some ''Dune'' \<and>
   list_all (gives_nothing legacy_library ''B9'') queries \<and>
   get_book_title (connected one_store legacy_library) ''B9'' = None"
proof -
  have none: "library_conn fresh_extractor = None"
    by (simp add: sample_defs legacy_library_def)
  have some: "library_conn (connected one_store legacy_library) = Some legacy_library"
    by (simp add: sample_defs legacy_library_def)
  have split: "queries = [(''ZBKLIBRARYASSET'', ''ZASSETID'')] @
      (''ZBKLIBRARYASSET'', ''ZBKASSETID'') # [(''ZBKLIBRARY'', ''ZASSETID'')]"
    by (simp add: queries_def)
  have drift:
    "fetch_title legacy_library (''ZBKLIBRARYASSET'', ''ZASSETID'') ''B1'' = Inl OperationalError"
    by (simp add: legacy_library_def query_defs)
  have skipped:
    "list_all (gives_nothing legacy_library ''B1'') [(''ZBKLIBRARYASSET'', ''ZASSETID'')]"
    by (simp add: gives_nothing_def drift)
  have row: "fetch_title legacy_library (''ZBKLIBRARYASSET'', ''ZBKASSETID'') ''B1'' =
      Inr (Some (Some ''Dune''))"
    by (simp add: legacy_library_def query_defs)
  have unknown: "list_all (gives_nothing legacy_library ''B9'') queries"
    by (simp add: gives_nothing_def legacy_library_def query_defs)
  from get_book_title_first_row [of fresh_extractor "''B1''" legacy_library] none
  have a: "get_book_title fresh_extractor ''B1'' = None"
    by blast
  from get_book_title_first_row
         [of "connected one_store legacy_library" "''B1''" legacy_library
             "[(''ZBKLIBRARYASSET'', ''ZASSETID'')]" "(''ZBKLIBRARYASSET'', ''ZBKASSETID'')"
             "[(''ZBKLIBRARY'', ''ZASSETID'')]" "Some ''Dune''"]
       some split skipped row
  have b: "get_book_title (connected one_store legacy_library) ''B1'' = Some ''Dune''"
    by blast
  from get_book_title_first_row [of "connected one_store legacy_library" "''B9''" legacy_library]
       some unknown
  have c: "get_book_title (connected one_store legacy_library) ''B9'' = None"
    by blast
  from none a some split drift skipped row b unknown c show ?thesis
    by blast
qed

subsection \<open>C4: the filter on the book title\<close>

text \<open>
  C4: with a filter title given, a row is left out exactly when it has a resolved title
  of which the filter title, letter case apart, is no part; a row without a resolved
  title is kept whatever the filter. A title is resolved when the resolver has returned
  one that is not empty, which is when the loop shows it as the title of the book. The
  records that the loop returns are those of the rows that are not left out, in the
  order of the rows.
\<close>

theorem filter_drops_known_other_titles:
  "(excluded ext ft r \<longleftrightarrow>
      (\<exists>title. resolved_title ext r = Some title \<and>
               \<not> (\<exists>p q. lower title = p @ lower ft @ q))) \<and>
   (process_row ext clk (Some ft) k r = Inr (res, k') \<longrightarrow>
      (res = None \<longleftrightarrow> excluded ext ft r)) \<and>
   (resolved_title ext r = None \<longrightarrow> process_row ext clk (Some ft) k r = Inr (res, k') \<longrightarrow>
      res \<noteq> None) \<and>
   (collect ext clk (Some ft) rs k [] = Inr (hs, k') \<longrightarrow>
      map hl_text hs = map row_highlight_text (filter (\<lambda>r. \<not> excluded ext ft r) rs))"
proof (intro conjI impI)
  show "excluded ext ft r \<longleftrightarrow>
      (\<exists>title. resolved_title ext r = Some title \<and>
               \<not> (\<exists>p q. lower title = p @ lower ft @ q))"
    by (simp add: excluded_def contains_iff split: option.splits)
next
  assume "process_row ext clk (Some ft) k r = Inr (res, k')"
  from process_row_result [OF this] show "res = None \<longleftrightarrow> excluded ext ft r"
    by (simp add: skip_row_excluded)
next
  assume "resolved_title ext r = None" and "process_row ext clk (Some ft) k r = Inr (res, k')"
  with process_row_result [of ext clk "Some ft" k r res k'] show "res \<noteq> None"
    by (simp add: skip_row_excluded excluded_def)
next
  assume "collect ext clk (Some ft) rs k [] = Inr (hs, k')"
  from collect_texts [OF this]
  show "map hl_text hs = map row_highlight_text (filter (\<lambda>r. \<not> excluded ext ft r) rs)"
    by (simp add: skip_row_excluded)
qed

theorem filter_drops_known_other_titles_witness:
  "resolved_title (connected shelf_store two_books) (shelf_row ''fear'' (Some 300) ''B1'') =
     Some ''Dune'' \<and>
   resolved_title (connected shelf_store two_books)
     (shelf_row ''psychohistory'' (Some 200) ''B2'') = Some ''Foundation'' \<and>
   resolved_title (connected shelf_store two_books) (shelf_row ''loose'' (Some 100) ''B9'') =
     None \<and>
   process_row (connected shelf_store two_books) ex_clock (Some ''DUNE'') 0
       (shelf_row ''psychohistory'' (Some 200) ''B2'') = Inr (None, 0) \<and>
   excluded (connected shelf_store two_books) ''DUNE''
     (shelf_row ''psychohistory'' (Some 200) ''B2'') \<and>
   process_row (connected shelf_store two_books) ex_clock (Some ''DUNE'') 0
       (shelf_row ''loose'' (Some 100) ''B9'') =
     Inr (Some (quote ''loose'' 978307300 ''Book ID: B9''), 0) \<and>
   Some (quote ''loose'' 978307300 ''Book ID: B9'') \<noteq> None \<and>
   collect (connected shelf_store two_books) ex_clock (Some ''DUNE'') shelf_rows 0 [] =
     Inr ([quote ''fear'' 978307500 ''Dune'', quote ''loose'' 978307300 ''Book ID: B9''], 0) \<and>
   map row_highlight_text
     (filter (\<lambda>r. \<not> excluded (connected shelf_store two_books) ''DUNE'' r) shelf_rows) =
     [''fear'', ''loose'']"
proof -
  have r1: "resolved_title (connected shelf_store two_books)
      (shelf_row ''fear'' (Some 300) ''B1'') = Some ''Dune''"
    by (simp add: resolved_title_def sample_defs two_books_def shelf_row_def shelf_rows_def shelf_store_def query_defs)
  have r2: "resolved_title (connected shelf_store two_books)
      (shelf_row ''psychohistory'' (Some 200) ''B2'') = Some ''Foundation''"
    by (simp add: resolved_title_def sample_defs two_books_def shelf_row_def shelf_rows_def shelf_store_def query_defs)
  have r3: "resolved_title (connected shelf_store two_books)
      (shelf_row ''loose'' (Some 100) ''B9'') = None"
    by (simp add: resolved_title_def sample_defs two_books_def shelf_row_def shelf_rows_def shelf_store_def query_defs)
  have step: "process_row (connected shelf_store two_books) ex_clock (Some ''DUNE'') 0
       (shelf_row ''psychohistory'' (Some 200) ''B2'') = Inr (None, 0)"
    by (simp add: sample_defs two_books_def shelf_row_def shelf_rows_def shelf_store_def query_defs run_defs string_defs)
  have kept: "process_row (connected shelf_store two_books) ex_clock (Some ''DUNE'') 0
       (shelf_row ''loose'' (Some 100) ''B9'') =
     Inr (Some (quote ''loose'' 978307300 ''Book ID: B9''), 0)"
    by (simp add: sample_defs two_books_def shelf_row_def shelf_rows_def shelf_store_def query_defs run_defs string_defs)
  have loop: "collect (connected shelf_store two_books) ex_clock (Some ''DUNE'') shelf_rows 0 [] =
     Inr ([quote ''fear'' 978307500 ''Dune'', quote ''loose'' 978307300 ''Book ID: B9''], 0)"
    by (simp add: sample_defs two_books_def shelf_row_def shelf_rows_def shelf_store_def query_defs run_defs string_defs)
  note dropped = filter_drops_known_other_titles
      [of "connected shelf_store two_books" "''DUNE''"
          "shelf_row ''psychohistory'' (Some 200) ''B2''" ex_clock 0 None 0 shelf_rows
          "[quote ''fear'' 978307500 ''Dune'', quote ''loose'' 978307300 ''Book ID: B9'']"]
  note unresolved = filter_drops_known_other_titles
      [of "connected shelf_store two_books" "''DUNE''"
          "shelf_row ''loose'' (Some 100) ''B9''" ex_clock 0
          "Some (quote ''loose'' 978307300 ''Book ID: B9'')" 0 shelf_rows
          "[quote ''fear'' 978307500 ''Dune'', quote ''loose'' 978307300 ''Book ID: B9'']"]
  from dropped step have ex: "excluded (connected shelf_store two_books) ''DUNE''
      (shelf_row ''psychohistory'' (Some 200) ''B2'')"
    by blast
  from unresolved r3 kept have inc: "Some (quote ''loose'' 978307300 ''Book ID: B9'') \<noteq> None"
    by blast
  from dropped loop
  have "map hl_text [quote ''fear'' 978307500 ''Dune'', quote ''loose'' 978307300 ''Book ID: B9''] =
     map row_highlight_text
       (filter (\<lambda>r. \<not> excluded (connected shelf_store two_books) ''DUNE'' r) shelf_rows)"
    by blast
  then have texts: "map row_highlight_text
       (filter (\<lambda>r. \<not> excluded (connected shelf_store two_books) ''DUNE'' r) shelf_rows) =
     [''fear'', ''loose'']"
    by (simp add: quote_def)
  from r1 r2 r3 step ex kept inc loop texts show ?thesis
    by blast
qed

subsection \<open>C5: the order of the highlights\<close>

text \<open>
  C5, as the specification has it: the highlights of the primary query are returned
  newest first, the rows with a NULL timestamp included. The statement puts the rows
  with NULL last, and the loop gives them the current time: on \<open>null_disk\<close> the
  undated highlight comes after the dated one and is the newer of the two.
\<close>

theorem null_timestamp_breaks_order:
  "fst (get_highlights null_disk ex_clock fresh_extractor None) =
     Inr [quote ''dated'' 978307300 ''Dune'', quote ''undated'' 1793793600 ''Dune''] \<and>
   \<not> newest_first [quote ''dated'' 978307300 ''Dune'', quote ''undated'' 1793793600 ''Dune'']"
  by (simp add: newest_first_def sample_defs null_disk_def null_store_def string_defs query_defs run_defs)

text \<open>
  C5, amended: when every returned highlight comes from the primary query, and every row
  of the query has a stored timestamp that is neither NULL nor 0, the returned sequence
  is sorted by creation time, newest first.
\<close>

theorem primary_rows_newest_first:
  assumes "ensure_connected d ext = Inr ext'"
    and "annotation_conn ext' = Some conn"
    and "primary_query conn = Inr found"
    and "list_all (\<lambda>r. truthy_num (row_created_at r)) found"
    and "collect ext' clk book_title found 0 [] = Inr (hs, k)"
    and "hs \<noteq> []"
  shows "fst (get_highlights d clk ext book_title) = Inr hs \<and> newest_first hs"
proof
  from assms(3) obtain ts where "table_names conn = Inr ts"
    by (auto dest: primary_query_table_names)
  with assms show "fst (get_highlights d clk ext book_title) = Inr hs"
    by (simp add: get_highlights_def fetch_highlights_def)
next
  from collect_stamps [OF assms(4) assms(5)]
  have "map hl_created_at hs =
      map stamp (filter (\<lambda>r. \<not> skip_row book_title (current_book_title ext' r)) found)"
    by simp
  moreover have "sorted_wrt (\<lambda>a b. seconds b \<le> seconds a)
      (map stamp (filter (\<lambda>r. \<not> skip_row book_title (current_book_title ext' r)) found))"
    by (rule stamps_newest_first [OF primary_query_sorted [OF assms(3)] assms(4)])
  ultimately have "sorted_wrt (\<lambda>a b. seconds b \<le> seconds a) (map hl_created_at hs)"
    by simp
  then show "newest_first hs"
    by (simp add: newest_first_def sorted_wrt_map)
qed

theorem primary_rows_newest_first_witness:
  "ensure_connected shelf_disk fresh_extractor = Inr (connected shelf_store two_books) \<and>
   annotation_conn (connected shelf_store two_books) = Some shelf_store \<and>
   primary_query shelf_store = Inr shelf_rows \<and>
   list_all (\<lambda>r. truthy_num (row_created_at r)) shelf_rows \<and>
   collect (connected shelf_store two_books) ex_clock (Some ''DUNE'') shelf_rows 0 [] =
     Inr ([quote ''fear'' 978307500 ''Dune'', quote ''loose'' 978307300 ''Book ID: B9''], 0) \<and>
   [quote ''fear'' 978307500 ''Dune'', quote ''loose'' 978307300 ''Book ID: B9''] \<noteq> [] \<and>
   fst (get_highlights shelf_disk ex_clock fresh_extractor (Some ''DUNE'')) =
     Inr [quote ''fear'' 978307500 ''Dune'', quote ''loose'' 978307300 ''Book ID: B9''] \<and>
   newest_first [quote ''fear'' 978307500 ''Dune'', quote ''loose'' 978307300 ''Book ID: B9'']"
proof -
  have conn: "ensure_connected shelf_disk fresh_extractor = Inr (connected shelf_store two_books)"
    by (simp add: sample_defs two_books_def shelf_rows_def shelf_row_def shelf_store_def shelf_disk_def run_defs)
  have ann: "annotation_conn (connected shelf_store two_books) = Some shelf_store"
    by (simp add: sample_defs two_books_def shelf_rows_def shelf_row_def shelf_store_def shelf_disk_def)
  have found: "primary_query shelf_store = Inr shelf_rows"
    by (simp add: sample_defs two_books_def shelf_rows_def shelf_row_def shelf_store_def shelf_disk_def query_defs)
  have truthy: "list_all (\<lambda>r. truthy_num (row_created_at r)) shelf_rows"
    by (simp add: sample_defs two_books_def shelf_rows_def shelf_row_def shelf_store_def shelf_disk_def)
  have loop:
    "collect (connected shelf_store two_books) ex_clock (Some ''DUNE'') shelf_rows 0 [] =
       Inr ([quote ''fear'' 978307500 ''Dune'', quote ''loose'' 978307300 ''Book ID: B9''], 0)"
    by (simp add: sample_defs two_books_def shelf_rows_def shelf_row_def shelf_store_def shelf_disk_def query_defs run_defs string_defs)
  have ne: "[quote ''fear'' 978307500 ''Dune'', quote ''loose'' 978307300 ''Book ID: B9''] \<noteq> []"
    by simp
  from primary_rows_newest_first [OF conn ann found truthy loop ne] conn ann found truthy loop ne
  show ?thesis
    by blast
qed

subsection \<open>C6: the fallback after a structural error\<close>

text \<open>
  C6: when the primary query fails with a structural error, \<^verbatim>\<open>get_highlights\<close> returns
  what the fallback returns for the same filter on the same state, an exception of the
  fallback included. The state is the extractor with its connections: the one given, if
  it is connected, and otherwise the one \<^verbatim>\<open>connect\<close> has made of it at the start of
  the call.
\<close>

theorem fallback_on_structural_error:
  "(annotation_conn ext = Some conn \<longrightarrow> primary_query conn = Inl OperationalError \<longrightarrow>
      get_highlights d clk ext book_title = (get_book_info ext clk 0 book_title, ext)) \<and>
   (annotation_conn ext = None \<longrightarrow> connect d ext = Inr ext' \<longrightarrow>
    annotation_conn ext' = Some conn \<longrightarrow> primary_query conn = Inl OperationalError \<longrightarrow>
      get_highlights d clk ext book_title = (get_book_info ext' clk 0 book_title, ext'))"
  using primary_query_structural [of conn]
  by (auto simp: get_highlights_def ensure_connected_def fetch_highlights_def)

theorem fallback_on_structural_error_witness:
  "annotation_conn (connected drifted_store dune_library) = Some drifted_store \<and>
   primary_query drifted_store = Inl OperationalError \<and>
   get_highlights drifted_disk ex_clock (connected drifted_store dune_library) (Some ''dune'') =
     (get_book_info (connected drifted_store dune_library) ex_clock 0 (Some ''dune''),
      connected drifted_store dune_library) \<and>
   annotation_conn fresh_extractor = None \<and>
   connect drifted_disk fresh_extractor = Inr (connected drifted_store dune_library) \<and>
   get_highlights drifted_disk ex_clock fresh_extractor (Some ''dune'') =
     (get_book_info (connected drifted_store dune_library) ex_clock 0 (Some ''dune''),
      connected drifted_store dune_library) \<and>
   get_book_info (connected drifted_store dune_library) ex_clock 0 (Some ''dune'') =
     Inr [dune_info]"
proof -
  have ann: "annotation_conn (connected drifted_store dune_library) = Some drifted_store"
    by (simp add: sample_defs drifted_store_def drifted_disk_def)
  have fails: "primary_query drifted_store = Inl OperationalError"
    by (simp add: sample_defs drifted_store_def drifted_disk_def query_defs)
  have fresh: "annotation_conn fresh_extractor = None"
    by (simp add: sample_defs drifted_store_def drifted_disk_def)
  have conn: "connect drifted_disk fresh_extractor = Inr (connected drifted_store dune_library)"
    by (simp add: sample_defs drifted_store_def drifted_disk_def run_defs)
  have info:
    "get_book_info (connected drifted_store dune_library) ex_clock 0 (Some ''dune'') =
       Inr [dune_info]"
    by (simp add: sample_defs drifted_store_def drifted_disk_def string_defs query_defs run_defs)
  from fallback_on_structural_error
         [of "connected drifted_store dune_library" drifted_store drifted_disk ex_clock
             "Some ''dune''"] ann fails
  have a: "get_highlights drifted_disk ex_clock (connected drifted_store dune_library)
             (Some ''dune'') =
           (get_book_info (connected drifted_store dune_library) ex_clock 0 (Some ''dune''),
            connected drifted_store dune_library)"
    by blast
  from fallback_on_structural_error
         [of fresh_extractor drifted_store drifted_disk ex_clock "Some ''dune''"
             "connected drifted_store dune_library"] ann fails fresh conn
  have b: "get_highlights drifted_disk ex_clock fresh_extractor (Some ''dune'') =
           (get_book_info (connected drifted_store dune_library) ex_clock 0 (Some ''dune''),
            connected drifted_store dune_library)"
    by blast
  from ann fails a fresh conn b info show ?thesis
    by blast
qed

subsection \<open>C7: the section headers of the document\<close>

text \<open>
  C7: among the writes of the exporter, the section headers are those of the titles that
  differ from the title of the record before, the first record always having one. For
  records with the titles a, a, b, a (a and b different) the headers are those of a, b
  and a: the title that comes back opens a second section of its own.
\<close>

theorem section_header_on_title_change:
  "filter is_header (writes None hs) = map header (section_titles (map hl_book_title hs)) \<and>
   (a \<noteq> b \<longrightarrow> map hl_book_title hs = [a, a, b, a] \<longrightarrow>
      filter is_header (writes None hs) = [header a, header b, header a])"
  by (simp add: headers_of_writes section_titles_def)

theorem section_header_on_title_change_witness:
  "''A'' \<noteq> ''B'' \<and>
   map hl_book_title ex_records = [''A'', ''A'', ''B'', ''A''] \<and>
   filter is_header (writes None ex_records) = [header ''A'', header ''B'', header ''A'']"
proof -
  have ne: "''A'' \<noteq> ''B''"
    by simp
  have ts: "map hl_book_title ex_records = [''A'', ''A'', ''B'', ''A'']"
    by (simp add: ex_records_def quote_def)
  from section_header_on_title_change [of ex_records "''A''" "''B''"] ne ts
  have "filter is_header (writes None ex_records) = [header ''A'', header ''B'', header ''A'']"
    by blast
  with ne ts show ?thesis
    by blast
qed

subsection \<open>C8: a missing annotation store\<close>

text \<open>
  C8: \<^verbatim>\<open>connect\<close> raises \<open>FileNotFoundError\<close> exactly when nothing is on disk at the
  path of the annotation store; an export by an extractor that is not yet connected then
  ends with that error and leaves the disk as it was, the output path included, since
  the file is opened only after \<^verbatim>\<open>get_highlights\<close> has returned.
\<close>

theorem connect_store_not_found:
  "(connect d ext = Inl FileNotFoundError \<longleftrightarrow> d (annotation_db_path ext) = None) \<and>
   (annotation_conn ext = None \<longrightarrow> d (annotation_db_path ext) = None \<longrightarrow>
      export_to_markdown d clk ext output_path book_title = (Inl FileNotFoundError, d, ext))"
  by (auto simp: connect_def ensure_connected_def get_highlights_def export_to_markdown_def
      split: option.splits)

theorem connect_store_not_found_witness:
  "no_files (annotation_db_path fresh_extractor) = None \<and>
   annotation_conn fresh_extractor = None \<and>
   connect no_files fresh_extractor = Inl FileNotFoundError \<and>
   export_to_markdown no_files ex_clock fresh_extractor ''book_highlights_all.md'' None =
     (Inl FileNotFoundError, no_files, fresh_extractor)"
proof -
  have absent: "no_files (annotation_db_path fresh_extractor) = None"
    by (simp add: no_files_def)
  have unconnected: "annotation_conn fresh_extractor = None"
    by (simp add: fresh_extractor_def)
  from connect_store_not_found
         [of no_files fresh_extractor ex_clock "''book_highlights_all.md''" None]
       absent unconnected
  show ?thesis
    by blast
qed

subsection \<open>C9: two exports of the same store\<close>

text \<open>
  C9, as the specification has it: two exports of the same store, without a filter, write
  the same bytes. The store of \<open>null_disk\<close> has a highlight with a NULL timestamp, which
  is written with the time of the run: a run at noon and a run a minute later write
  documents that differ in its date line.
\<close>

theorem export_depends_on_clock:
  "fst (get_highlights null_disk ex_clock fresh_extractor None) =
     Inr [quote ''dated'' 978307300 ''Dune'', quote ''undated'' 1793793600 ''Dune''] \<and>
   fst (get_highlights null_disk later_clock fresh_extractor None) =
     Inr [quote ''dated'' 978307300 ''Dune'', quote ''undated'' 1793793660 ''Dune''] \<and>
   strftime (Datetime 1793793600) = ''2026-11-04 12:00:00'' \<and>
   strftime (Datetime 1793793660) = ''2026-11-04 12:01:00'' \<and>
   fst (snd (export_to_markdown null_disk ex_clock fresh_extractor
               ''book_highlights_all.md'' None)) ''book_highlights_all.md'' \<noteq>
   fst (snd (export_to_markdown null_disk later_clock fresh_extractor
               ''book_highlights_all.md'' None)) ''book_highlights_all.md''"
proof -
  have first: "fst (get_highlights null_disk ex_clock fresh_extractor None) =
      Inr [quote ''dated'' 978307300 ''Dune'', quote ''undated'' 1793793600 ''Dune'']"
    by (simp add: sample_defs null_disk_def null_store_def later_clock_def string_defs query_defs run_defs)
  have second: "fst (get_highlights null_disk later_clock fresh_extractor None) =
      Inr [quote ''dated'' 978307300 ''Dune'', quote ''undated'' 1793793660 ''Dune'']"
    by (simp add: sample_defs null_disk_def null_store_def later_clock_def string_defs query_defs run_defs)
  have noon: "strftime (Datetime 1793793600) = ''2026-11-04 12:00:00''"
    by (simp add: date_defs)
  have later: "strftime (Datetime 1793793660) = ''2026-11-04 12:01:00''"
    by (simp add: date_defs)
  have "fst (snd (export_to_markdown null_disk ex_clock fresh_extractor
               ''book_highlights_all.md'' None)) ''book_highlights_all.md'' \<noteq>
      fst (snd (export_to_markdown null_disk later_clock fresh_extractor
               ''book_highlights_all.md'' None)) ''book_highlights_all.md''"
    by (simp add: exported_document [OF first] exported_document [OF second] record_writes_def
        header_def quote_def newline_def noon later)
  with first second noon later show ?thesis
    by blast
qed

text \<open>
  C9, amended: for a store in which every creation date and every date of last opening
  is neither NULL nor 0, two exports without a filter write the same bytes, whatever the
  clock shows at each run.
\<close>

theorem export_independent_of_clock:
  "ensure_connected d ext = Inr ext' \<Longrightarrow> all_stamped (annotation_conn ext') \<Longrightarrow>
   all_stamped (library_conn ext') \<Longrightarrow>
   export_to_markdown d clk1 ext output_path None =
     export_to_markdown d clk2 ext output_path None"
  using fetch_highlights_without_clock [of ext' clk1 None clk2]
  by (simp add: export_to_markdown_def get_highlights_def)

theorem export_independent_of_clock_witness:
  "ensure_connected one_disk fresh_extractor = Inr (connected one_store dune_library) \<and>
   all_stamped (annotation_conn (connected one_store dune_library)) \<and>
   all_stamped (library_conn (connected one_store dune_library)) \<and>
   export_to_markdown one_disk ex_clock fresh_extractor ''book_highlights_all.md'' None =
     export_to_markdown one_disk later_clock fresh_extractor ''book_highlights_all.md'' None"
proof -
  have conn: "ensure_connected one_disk fresh_extractor = Inr (connected one_store dune_library)"
    by (simp add: sample_defs later_clock_def run_defs)
  have ann: "all_stamped (annotation_conn (connected one_store dune_library))"
    by (simp add: all_stamped_def stamped_table_def sample_defs later_clock_def)
  have lib: "all_stamped (library_conn (connected one_store dune_library))"
    by (simp add: all_stamped_def stamped_table_def sample_defs later_clock_def)
  from export_independent_of_clock [OF conn ann lib] conn ann lib show ?thesis
    by blast
qed

subsection \<open>C10: the note of the fallback\<close>

text \<open>
  C10, as the specification has it: when one of author and description is present, the
  note has both labels and shows the missing field as the word None, and the note is
  absent only when both are absent. The two books of \<open>odd_library\<close> go against it,
  whichever way an empty string is counted. The first has an author and the empty string
  for a description: its note ends with the label of the description and nothing after
  it. The second has the empty string for an author and NULL for a description: it has
  no note.
\<close>

theorem empty_field_note:
  "get_book_info (connected one_store odd_library) ex_clock 0 None =
     Inr [odd_info ''Dune'' (Some (''Author: Frank Herbert'' @ newline @ ''Description: '')),
          odd_info ''Foundation'' None]"
  by (simp add: sample_defs odd_library_def odd_info_def string_defs query_defs run_defs)

text \<open>
  C10, amended: in the fallback, the notes of the records are those of the rows of the
  query, in order. The note of a row is absent exactly when author and description are
  both NULL or empty; otherwise it has both labels. With an author that is not empty and
  a NULL description it is the author under its label and the word None under the other;
  with a NULL author and a description that is not empty, the other way round. (An empty
  field next to one that is not empty is shown as nothing.)
\<close>

theorem fallback_note_labels:
  "(library_conn ext = Some conn \<longrightarrow> book_info_query conn book_title = Inr found \<longrightarrow>
    get_book_info ext clk k book_title = Inr hs \<longrightarrow>
      map hl_note hs = map expected_note found) \<and>
   (expected_note r = None \<longleftrightarrow> missing (info_author r) \<and> missing (info_description r)) \<and>
   (info_author r = Some a \<longrightarrow> a \<noteq> [] \<longrightarrow> info_description r = None \<longrightarrow>
      expected_note r = Some (''Author: '' @ a @ newline @ ''Description: None'')) \<and>
   (info_author r = None \<longrightarrow> info_description r = Some b \<longrightarrow> b \<noteq> [] \<longrightarrow>
      expected_note r = Some (''Author: None'' @ newline @ ''Description: '' @ b))"
proof (intro conjI impI)
  assume "library_conn ext = Some conn" "book_info_query conn book_title = Inr found"
    "get_book_info ext clk k book_title = Inr hs"
  then have "info_loop clk found k [] = Inr hs"
    by (simp add: get_book_info_def)
  from info_loop_notes [OF this] show "map hl_note hs = map expected_note found"
    by simp
qed (simp_all add: expected_note_def missing_def render_def)

theorem fallback_note_labels_witness:
  "library_conn (connected one_store dune_library) = Some dune_library \<and>
   book_info_query dune_library None = Inr [dune_row] \<and>
   get_book_info (connected one_store dune_library) ex_clock 0 None = Inr [dune_info] \<and>
   info_author dune_row = Some ''Frank Herbert'' \<and> ''Frank Herbert'' \<noteq> [] \<and>
   info_description dune_row = None \<and>
   map hl_note [dune_info] = map expected_note [dune_row] \<and>
   expected_note dune_row =
     Some (''Author: '' @ ''Frank Herbert'' @ newline @ ''Description: None'')"
proof -
  have lib: "library_conn (connected one_store dune_library) = Some dune_library"
    by (simp add: sample_defs dune_row_def)
  have found: "book_info_query dune_library None = Inr [dune_row]"
    by (simp add: sample_defs dune_row_def query_defs)
  have info: "get_book_info (connected one_store dune_library) ex_clock 0 None = Inr [dune_info]"
    by (simp add: sample_defs dune_row_def string_defs query_defs run_defs)
  have a: "info_author dune_row = Some ''Frank Herbert''"
    by (simp add: dune_row_def)
  have ne: "''Frank Herbert'' \<noteq> []"
    by simp
  have d: "info_description dune_row = None"
    by (simp add: dune_row_def)
  note inst = fallback_note_labels
      [of "connected one_store dune_library" dune_library None "[dune_row]" ex_clock 0
          "[dune_info]" dune_row "''Frank Herbert''"]
  from inst lib found info have same: "map hl_note [dune_info] = map expected_note [dune_row]"
    by blast
  from inst a ne d have lab: "expected_note dune_row =
     Some (''Author: '' @ ''Frank Herbert'' @ newline @ ''Description: None'')"
    by blast
  from lib found info a ne d same lab show ?thesis
    by blast
qed

end
